theory Spec2Isabelle
  imports Main
begin

text \<open>
  A model of the Transfer Engine of distribution-tooling-for-helm (package chartutils:
  \<^verbatim>\<open>PullImages\<close>, \<^verbatim>\<open>PushImages\<close>), of the manifest reader of package testutil and of
  the \<^verbatim>\<open>wrap\<close> and \<^verbatim>\<open>pull\<close> commands, with the properties the specification states
  about them. Functions are state passing over a world that holds the chart directory,
  a logical clock and the trace of the calls made to the external collaborators.
\<close>

section \<open>Errors and formatted messages\<close>

text \<open>
  A Go \<^verbatim>\<open>error\<close> value. \<open>Msg s\<close> is an error that only carries its text (an error of a
  library, or \<^verbatim>\<open>fmt.Errorf\<close> without \<^verbatim>\<open>%w\<close>); \<open>Wrap s e\<close> is what \<^verbatim>\<open>fmt.Errorf\<close> with
  \<^verbatim>\<open>%w\<close> returns: the whole formatted text \<open>s\<close> and the wrapped cause \<open>e\<close>;
  \<open>Joined es\<close> is the result of \<^verbatim>\<open>errors.Join\<close>; \<open>DriftError\<close> is the error of the Lock
  Verifier, with the (name, platform, digest) entries added, removed and changed.
\<close>

datatype error =
    Msg string
  | Wrap string error
  | Joined "error list"
  | DriftError "(string \<times> string \<times> string) list" "(string \<times> string \<times> string) list"
      "(string \<times> string \<times> string) list"

fun join_lines :: "string list \<Rightarrow> string" where
  "join_lines [] = []"
| "join_lines [s] = s"
| "join_lines (s # t # ss) = s @ [CHR 0x0A] @ join_lines (t # ss)"

fun error_text :: "error \<Rightarrow> string" where
  "error_text (Msg s) = s"
| "error_text (Wrap s e) = s"
| "error_text (Joined es) = join_lines (map error_text es)"
| "error_text (DriftError added removed changed) = ''Images.lock does not match the chart''"

text \<open>\<^verbatim>\<open>fmt.Errorf(prefix + "%w", err)\<close> and \<^verbatim>\<open>fmt.Errorf(prefix + "%v", err)\<close>.\<close>

definition Errorf_w :: "string \<Rightarrow> error \<Rightarrow> error" where
  "Errorf_w prefix err = Wrap (prefix @ error_text err) err"

definition Errorf_v :: "string \<Rightarrow> error \<Rightarrow> error" where
  "Errorf_v prefix err = Msg (prefix @ error_text err)"

text \<open>\<^verbatim>\<open>%v\<close> of an error value that may be nil.\<close>

definition fmt_v :: "error option \<Rightarrow> string" where
  "fmt_v e = (case e of None \<Rightarrow> ''<nil>'' | Some err \<Rightarrow> error_text err)"

text \<open>\<^verbatim>\<open>%d\<close> of an int.\<close>

fun digits :: "nat \<Rightarrow> string" where
  "digits n =
     (if n < 10 then [char_of (48 + n)]
      else digits (n div 10) @ [char_of (48 + n mod 10)])"

definition fmt_d :: "int \<Rightarrow> string" where
  "fmt_d i = (if i < 0 then CHR ''-'' # digits (nat (- i)) else digits (nat i))"

section \<open>The Image Lock (package imagelock)\<close>

text \<open>
  The types of package imagelock are used by the code below through their fields
  \<^verbatim>\<open>Images\<close>, \<^verbatim>\<open>Digests\<close>, \<^verbatim>\<open>Chart\<close>, \<^verbatim>\<open>Name\<close>, \<^verbatim>\<open>Image\<close>, \<^verbatim>\<open>Digest\<close> and \<^verbatim>\<open>Arch\<close>.
  A digest (\<^verbatim>\<open>digest.Digest\<close>) is algorithm-prefixed: \<^verbatim>\<open>String()\<close> is
  \<^verbatim>\<open>algorithm:encoded\<close> and \<^verbatim>\<open>Encoded()\<close> is the part after the separator.
\<close>

record Digest_t =
  Algorithm :: string
  Encoded :: string

definition digest_String :: "Digest_t \<Rightarrow> string" where
  "digest_String d = Algorithm d @ '':'' @ Encoded d"

record DigestInfo =
  Digest :: Digest_t
  Arch :: string

record ChartImage =
  Name :: string
  Image :: string
  Chart :: string
  Digests :: "DigestInfo list"

record ImagesLock =
  lock_chart_name :: string
  lock_chart_version :: string
  Images :: "ChartImage list"

text \<open>The chart (\<^verbatim>\<open>chartutils.Chart\<close>), through the methods and fields the commands use.\<close>

record Chart =
  chart_Name :: string
  chart_Version :: string
  chart_RootDir :: string
  chart_ImagesDir :: string

text \<open>An image the chart declares in its annotations.\<close>

record DeclaredImage =
  decl_name :: string
  decl_image :: string
  decl_chartPath :: string

section \<open>Registry objects (go-containerregistry)\<close>

type_synonym reference = string

record v1_Platform =
  OS :: string
  Architecture :: string
  Variant :: string

record v1_Descriptor =
  MediaType :: string
  desc_Digest :: string
  desc_Platform :: "v1_Platform option"
  Annotations :: "string \<rightharpoonup> string"

text \<open>\<open>cf_Platform\<close> is what \<^verbatim>\<open>cf.Platform()\<close> returns for the configuration file.\<close>

record ConfigFile =
  cf_Platform :: "v1_Platform option"

text \<open>
  An image: \<open>img_Descriptor\<close> is the result of \<^verbatim>\<open>partial.Descriptor(img)\<close> and
  \<open>img_ConfigFile\<close> the result of \<^verbatim>\<open>img.ConfigFile()\<close>; both can fail.
\<close>

record v1_Image =
  img_content :: string
  img_Descriptor :: "error + v1_Descriptor"
  img_ConfigFile :: "error + ConfigFile"

record IndexAddendum =
  Add :: v1_Image
  Descriptor :: v1_Descriptor

record ImageIndex =
  idx_MediaType :: string
  idx_Manifests :: "IndexAddendum list"

text \<open>What \<^verbatim>\<open>remote.Get\<close> returns: the raw manifest, and the result of \<^verbatim>\<open>rmt.Image()\<close>.\<close>

record remote_Descriptor =
  rd_Manifest :: string
  rd_Image :: "error + v1_Image"

text \<open>\<^verbatim>\<open>v1.IndexManifest\<close>, with the list of manifests the reader walks.\<close>

record IndexManifest =
  im_MediaType :: string
  Manifests :: "v1_Descriptor list"

definition OCIManifestSchema1 :: string where
  "OCIManifestSchema1 = ''application/vnd.oci.image.manifest.v1+json''"

definition DockerManifestSchema2 :: string where
  "DockerManifestSchema2 = ''application/vnd.docker.distribution.manifest.v2+json''"

definition DockerManifestList :: string where
  "DockerManifestList = ''application/vnd.docker.distribution.manifest.list.v2+json''"

definition OCIImageIndex :: string where
  "OCIImageIndex = ''application/vnd.oci.image.index.v1+json''"

section \<open>The world: file system, logical clock and trace of calls\<close>

text \<open>
  A file of the chart directory: a single-image archive written by \<^verbatim>\<open>crane.Save\<close>
  (the image and the tag it was saved under), a file left behind by a failed write, a
  lock file, a bundle archive (its path prefix and the directory it packs), or any
  other file.
\<close>

datatype file_t =
    Tarball v1_Image string
  | Truncated
  | LockFile ImagesLock
  | Bundle string string
  | OtherFile string

datatype event =
    Call_MkdirAll string
  | PB_WithTotal int
  | PB_UpdateTitle string
  | PB_Start
  | PB_Stop
  | PB_Add int
  | PB_Warnf string
  | Log_Debugf string
  | Call_ParseReference string
  | Call_Get reference
  | Call_Save string string
  | Call_Load string
  | Call_WriteIndex reference ImageIndex
  | Log_Step string
  | Log_Infof string
  | Call_verifyLock string string
  | Call_createImagesLock string string "string list"
  | Call_WriteFile string
  | Call_TarContext string string string

record world =
  clock :: nat
  fs :: "string \<rightharpoonup> file_t"
  pushed :: "(reference \<times> ImageIndex) list"
  events :: "event list"

definition emit :: "event \<Rightarrow> world \<Rightarrow> world" where
  "emit ev w = w\<lparr>events := events w @ [ev]\<rparr>"

definition tick :: "world \<Rightarrow> world" where
  "tick w = w\<lparr>clock := Suc (clock w)\<rparr>"

definition write_file :: "string \<Rightarrow> file_t \<Rightarrow> world \<Rightarrow> world" where
  "write_file path f w = w\<lparr>fs := (fs w)(path \<mapsto> f)\<rparr>"

text \<open>
  The outcome of \<^verbatim>\<open>crane.Save\<close>: the archive is written, or the file could not be
  created (the cache is unchanged), or writing failed after the file was created.
\<close>

datatype save_outcome = Saved | CreateFailed error | WriteFailed error

text \<open>
  The external collaborators, each a function of the logical clock (the number of
  calls made so far), so that any sequence of transient failures is an environment:
  the file system calls, the registry client, and the pure library functions
  \<^verbatim>\<open>filepath.Join\<close>, \<^verbatim>\<open>filepath.Abs\<close>, \<^verbatim>\<open>filepath.Dir\<close>, \<^verbatim>\<open>name.ParseReference\<close> and
  \<^verbatim>\<open>json.Unmarshal\<close>; \<open>fmt_q\<close> is the verb \<^verbatim>\<open>%q\<close> of package fmt on a string
  (\<^verbatim>\<open>strconv.Quote\<close>). \<open>DefaultAnnotationsKey\<close> and \<open>DefaultImagesLockFileName\<close> are
  constants of package imagelock. The last group are the collaborators of the
  commands: the chart loader, the helpers of package main and utils that are not
  among the sources, the extraction of the declared images and the registry
  introspection of the Lock Generator.
\<close>

record env =
  fmt_q :: "string \<Rightarrow> string"
  DefaultAnnotationsKey :: string
  filepath_Join :: "string \<Rightarrow> string \<Rightarrow> string"
  os_MkdirAll :: "nat \<Rightarrow> string \<Rightarrow> error option"
  name_ParseReference :: "string \<Rightarrow> error + reference"
  remote_Get :: "nat \<Rightarrow> reference \<Rightarrow> error + remote_Descriptor"
  crane_Save :: "nat \<Rightarrow> string \<Rightarrow> save_outcome"
  crane_Load_error :: "string \<Rightarrow> error"
  remote_WriteIndex :: "nat \<Rightarrow> reference \<Rightarrow> error option"
  json_Unmarshal :: "string \<Rightarrow> IndexManifest option"
  DefaultImagesLockFileName :: string
  filepath_Abs :: "string \<Rightarrow> error + string"
  filepath_Dir :: "string \<Rightarrow> string"
  os_WriteFile :: "nat \<Rightarrow> string \<Rightarrow> error option"
  tar_Write :: "nat \<Rightarrow> string \<Rightarrow> error option"
  getGlobalTempWorkDir :: "error + string"
  utils_FetchRemoteChart :: "nat \<Rightarrow> string \<Rightarrow> string \<Rightarrow> string \<Rightarrow> error + string"
  utils_IsTarFile :: "string \<Rightarrow> bool"
  untarChart :: "nat \<Rightarrow> string \<Rightarrow> string \<Rightarrow> error + string"
  chartutils_LoadChart :: "string \<Rightarrow> error + Chart"
  getImageLockFilePath :: "string \<Rightarrow> error + string"
  listDeclaredImages :: "string \<Rightarrow> string \<Rightarrow> error + DeclaredImage list"
  resolve_platforms :: "nat \<Rightarrow> string \<Rightarrow> error + (string \<times> Digest_t) list"

section \<open>chartutils: Configuration and options\<close>

datatype logger = SilentLog | SectionLog string

datatype progress_bar = SilentProgressBar | SectionProgressBar string

text \<open>
  A context is the logical time at which it is cancelled, if ever: \<^verbatim>\<open>ctx.Done()\<close> is
  closed, and \<^verbatim>\<open>ctx.Err()\<close> is not nil, from that time on. \<^verbatim>\<open>context.Background()\<close> is
  never cancelled. A \<^verbatim>\<open>Log\<close> that was never set is the nil interface.
\<close>

type_synonym go_context = "nat option"

definition context_Background :: go_context where
  "context_Background = None"

definition ctx_done :: "go_context \<Rightarrow> nat \<Rightarrow> bool" where
  "ctx_done ctx t = (case ctx of None \<Rightarrow> False | Some c \<Rightarrow> c \<le> t)"

record Configuration =
  AnnotationsKey :: string
  Log :: "logger option"
  Context :: go_context
  ProgressBar :: progress_bar
  MaxRetries :: int

type_synonym Option = "Configuration \<Rightarrow> Configuration"

definition WithContext :: "go_context \<Rightarrow> Option" where
  "WithContext ctx cfg = cfg\<lparr>Context := ctx\<rparr>"

definition WithMaxRetries :: "int \<Rightarrow> Option" where
  "WithMaxRetries retries cfg = cfg\<lparr>MaxRetries := retries\<rparr>"

definition WithProgressBar :: "progress_bar \<Rightarrow> Option" where
  "WithProgressBar pb cfg = cfg\<lparr>ProgressBar := pb\<rparr>"

definition WithLog :: "logger \<Rightarrow> Option" where
  "WithLog l cfg = cfg\<lparr>Log := Some l\<rparr>"

definition WithAnnotationsKey :: "string \<Rightarrow> Option" where
  "WithAnnotationsKey str cfg = cfg\<lparr>AnnotationsKey := str\<rparr>"

definition NewConfiguration :: "env \<Rightarrow> Option list \<Rightarrow> Configuration" where
  "NewConfiguration E opts =
     fold (\<lambda>opt cfg. opt cfg) opts
       \<lparr>AnnotationsKey = DefaultAnnotationsKey E,
        Log = None,
        Context = context_Background,
        ProgressBar = SilentProgressBar,
        MaxRetries = 3\<rparr>"

section \<open>chartutils: pulling images\<close>

definition getNumberOfArtifacts :: "ChartImage list \<Rightarrow> int" where
  "getNumberOfArtifacts images =
     fold (\<lambda>imgDesc n. n + int (length (Digests imgDesc))) images 0"

definition getImageTarFile :: "env \<Rightarrow> string \<Rightarrow> DigestInfo \<Rightarrow> string" where
  "getImageTarFile E imagesDir dgst =
     filepath_Join E imagesDir (Encoded (Digest dgst) @ ''.tar'')"

definition pullImage ::
  "env \<Rightarrow> string \<Rightarrow> DigestInfo \<Rightarrow> string \<Rightarrow> world \<Rightarrow> (error + string) \<times> world" where
  "pullImage E imageName digest imagesDir w =
     (let imgFileName = getImageTarFile E imagesDir digest;
          src = imageName @ ''@'' @ digest_String (Digest digest);
          w1 = emit (Call_ParseReference src) w
      in case name_ParseReference E src of
           Inl err \<Rightarrow> (Inl (Errorf_w (''parsing reference '' @ fmt_q E src @ '': '') err), w1)
         | Inr ref \<Rightarrow>
             (let w2 = tick (emit (Call_Get ref) w1)
              in case remote_Get E (clock w1) ref of
                   Inl err \<Rightarrow> (Inl err, w2)
                 | Inr rmt \<Rightarrow>
                     (case rd_Image rmt of
                        Inl err \<Rightarrow> (Inl err, w2)
                      | Inr img \<Rightarrow>
                          (let w3 = tick (emit (Call_Save imageName imgFileName) w2);
                               failed = (\<lambda>err. Errorf_w (''failed to save image '' @ fmt_q E imageName
                                            @ '' to '' @ fmt_q E imgFileName @ '': '') err)
                           in case crane_Save E (clock w2) imgFileName of
                                Saved \<Rightarrow> (Inr imgFileName, write_file imgFileName (Tarball img imageName) w3)
                              | CreateFailed err \<Rightarrow> (Inl (failed err), w3)
                              | WriteFailed err \<Rightarrow>
                                  (Inl (failed err), write_file imgFileName Truncated w3)))))"

text \<open>
  What a call returning \<^verbatim>\<open>error\<close> does: it returns (nil or an error), or it panics.
\<close>

datatype outcome = Returned "error option" | Panicked string

definition nil_dereference :: string where
  "nil_dereference = ''runtime error: invalid memory address or nil pointer dereference''"

text \<open>
  Modelled from the spec: \<^verbatim>\<open>utils.ExecuteWithRetry\<close> is not among the sources. The
  unit is attempted (Pending to InFlight), and a failed attempt is retried while the
  attempts made are fewer than the configured number ("up to N attempts"); the
  callback receives the number of the try, from 0, and the previous error. A panic
  of the callback unwinds through the loop.
\<close>

function retry_loop ::
  "int \<Rightarrow> (int \<Rightarrow> error option \<Rightarrow> world \<Rightarrow> outcome \<times> world) \<Rightarrow> int \<Rightarrow> error option \<Rightarrow> world
     \<Rightarrow> outcome \<times> world" where
  "retry_loop retries cb try prevErr w =
     (case cb try prevErr w of
        (Panicked p, w') \<Rightarrow> (Panicked p, w')
      | (Returned None, w') \<Rightarrow> (Returned None, w')
      | (Returned (Some err), w') \<Rightarrow>
          (if try + 1 < retries then retry_loop retries cb (try + 1) (Some err) w'
           else (Returned (Some err), w')))"
  by pat_completeness auto
termination
  by (relation "measure (\<lambda>(retries, cb, try, prevErr, w). nat (retries - try))") auto

declare retry_loop.simps [simp del]

definition ExecuteWithRetry ::
  "int \<Rightarrow> (int \<Rightarrow> error option \<Rightarrow> world \<Rightarrow> outcome \<times> world) \<Rightarrow> world \<Rightarrow> outcome \<times> world" where
  "ExecuteWithRetry retries cb w = retry_loop retries cb 0 None w"

text \<open>One attempt of the pull callback: the call of \<^verbatim>\<open>pullImage\<close> and its error.\<close>

definition pull_attempt ::
  "env \<Rightarrow> ChartImage \<Rightarrow> DigestInfo \<Rightarrow> string \<Rightarrow> world \<Rightarrow> outcome \<times> world" where
  "pull_attempt E imgDesc dgst imagesDir w =
     (case pullImage E (Image imgDesc) dgst imagesDir w of
        (Inl err, w') \<Rightarrow> (Returned (Some err), w')
      | (Inr f, w') \<Rightarrow> (Returned None, w'))"

text \<open>The closure passed to \<^verbatim>\<open>ExecuteWithRetry\<close> by \<^verbatim>\<open>PullImages\<close>.\<close>

definition pull_cb ::
  "env \<Rightarrow> Configuration \<Rightarrow> ChartImage \<Rightarrow> DigestInfo \<Rightarrow> string
     \<Rightarrow> int \<Rightarrow> error option \<Rightarrow> world \<Rightarrow> outcome \<times> world" where
  "pull_cb E cfg imgDesc dgst imagesDir try prevErr w =
     (if try > 0 then
        (if ctx_done (Context cfg) (clock w) then (Returned prevErr, w)
         else case Log cfg of
                None \<Rightarrow> (Panicked nil_dereference, w)
              | Some l \<Rightarrow>
                  pull_attempt E imgDesc dgst imagesDir
                    (emit (PB_Warnf (''Failed to pull image: retrying '' @ fmt_d try @ ''/''
                                       @ fmt_d (MaxRetries cfg)))
                       (emit (Log_Debugf (''Failed to pull image: '' @ fmt_v prevErr)) w)))
      else pull_attempt E imgDesc dgst imagesDir w)"

definition cancelled_execution :: error where
  "cancelled_execution = Msg ''cancelled execution''"

text \<open>One transfer unit of the pull: the body of the \<^verbatim>\<open>default\<close> branch.\<close>

definition pull_unit ::
  "env \<Rightarrow> Configuration \<Rightarrow> string \<Rightarrow> ChartImage \<Rightarrow> DigestInfo \<Rightarrow> world \<Rightarrow> outcome \<times> world" where
  "pull_unit E cfg imagesDir imgDesc dgst w =
     (let w1 = emit (PB_UpdateTitle (''Saving image '' @ Chart imgDesc @ ''/'' @ Name imgDesc
                       @ '' '' @ Image imgDesc @ '' ('' @ Arch dgst @ '')''))
                 (emit (PB_Add 1) w)
      in case ExecuteWithRetry (MaxRetries cfg) (pull_cb E cfg imgDesc dgst imagesDir) w1 of
           (Panicked p, w') \<Rightarrow> (Panicked p, w')
         | (Returned (Some err), w') \<Rightarrow>
             (Returned (Some (Errorf_w (''failed to pull image '' @ fmt_q E (Name imgDesc) @ '': '') err)), w')
         | (Returned None, w') \<Rightarrow> (Returned None, w'))"

text \<open>
  The inner loop over the digests of one image and the outer loop over the images.
  \<open>Returned None\<close> is the loop running to its end; any other outcome leaves
  \<^verbatim>\<open>PullImages\<close> at once.
\<close>

fun pull_digests ::
  "env \<Rightarrow> Configuration \<Rightarrow> string \<Rightarrow> ChartImage \<Rightarrow> DigestInfo list \<Rightarrow> world \<Rightarrow> outcome \<times> world" where
  "pull_digests E cfg imagesDir imgDesc [] w = (Returned None, w)"
| "pull_digests E cfg imagesDir imgDesc (dgst # rest) w =
     (if ctx_done (Context cfg) (clock w) then (Returned (Some cancelled_execution), w)
      else case pull_unit E cfg imagesDir imgDesc dgst w of
             (Returned None, w') \<Rightarrow> pull_digests E cfg imagesDir imgDesc rest w'
           | (r, w') \<Rightarrow> (r, w'))"

fun pull_images ::
  "env \<Rightarrow> Configuration \<Rightarrow> string \<Rightarrow> ChartImage list \<Rightarrow> world \<Rightarrow> outcome \<times> world" where
  "pull_images E cfg imagesDir [] w = (Returned None, w)"
| "pull_images E cfg imagesDir (imgDesc # rest) w =
     (case pull_digests E cfg imagesDir imgDesc (Digests imgDesc) w of
        (Returned None, w') \<Rightarrow> pull_images E cfg imagesDir rest w'
      | (r, w') \<Rightarrow> (r, w'))"

definition PullImages ::
  "env \<Rightarrow> ImagesLock \<Rightarrow> string \<Rightarrow> Option list \<Rightarrow> world \<Rightarrow> outcome \<times> world" where
  "PullImages E lock imagesDir opts w =
     (let cfg = NewConfiguration E opts;
          w0 = tick (emit (Call_MkdirAll imagesDir) w)
      in case os_MkdirAll E (clock w) imagesDir of
           Some err \<Rightarrow>
             (Returned (Some (Errorf_v ''failed to create bundle directory: '' err)), w0)
         | None \<Rightarrow>
             (let w1 = emit PB_Start (emit (PB_UpdateTitle ''Pulling Images'')
                         (emit (PB_WithTotal (getNumberOfArtifacts (Images lock))) w0))
              in case pull_images E cfg imagesDir (Images lock) w1 of
                   (r, w2) \<Rightarrow> (r, emit PB_Stop w2)))"


section \<open>chartutils: pushing images\<close>

text \<open>\<^verbatim>\<open>empty.Index\<close>, \<^verbatim>\<open>mutate.IndexMediaType\<close> and \<^verbatim>\<open>mutate.AppendManifests\<close>.\<close>

definition empty_Index :: ImageIndex where
  "empty_Index = \<lparr>idx_MediaType = OCIImageIndex, idx_Manifests = []\<rparr>"

definition IndexMediaType :: "ImageIndex \<Rightarrow> string \<Rightarrow> ImageIndex" where
  "IndexMediaType idx mt = idx\<lparr>idx_MediaType := mt\<rparr>"

definition AppendManifests :: "ImageIndex \<Rightarrow> IndexAddendum list \<Rightarrow> ImageIndex" where
  "AppendManifests base adds = base\<lparr>idx_Manifests := idx_Manifests base @ adds\<rparr>"

text \<open>\<^verbatim>\<open>crane.Load\<close> reads a single-image archive of the cache.\<close>

definition crane_Load :: "env \<Rightarrow> string \<Rightarrow> world \<Rightarrow> (error + v1_Image) \<times> world" where
  "crane_Load E path w =
     (case fs w path of
        Some (Tarball img tag) \<Rightarrow> (Inr img, emit (Call_Load path) w)
      | _ \<Rightarrow> (Inl (crane_Load_error E path), emit (Call_Load path) w))"

text \<open>The loop of \<^verbatim>\<open>buildImageIndex\<close> over the digests, with the slice \<^verbatim>\<open>adds\<close>.\<close>

fun build_adds ::
  "env \<Rightarrow> string \<Rightarrow> DigestInfo list \<Rightarrow> IndexAddendum list \<Rightarrow> world
     \<Rightarrow> (error + IndexAddendum list) \<times> world" where
  "build_adds E imagesDir [] adds w = (Inr adds, w)"
| "build_adds E imagesDir (dgstData # rest) adds w =
     (case crane_Load E (getImageTarFile E imagesDir dgstData) w of
        (Inl err, w1) \<Rightarrow>
          (Inl (Errorf_w (''loading '' @ getImageTarFile E imagesDir dgstData @ '' as tarball: '') err), w1)
      | (Inr img, w1) \<Rightarrow>
          (case img_Descriptor img of
             Inl err \<Rightarrow> (Inl (Errorf_w ''failed to create descriptor: '' err), w1)
           | Inr newDesc \<Rightarrow>
               (case img_ConfigFile img of
                  Inl err \<Rightarrow> (Inl (Errorf_w ''failed to obtain image config file: '' err), w1)
                | Inr cf \<Rightarrow>
                    build_adds E imagesDir rest
                      (adds @ [\<lparr>Add = img, Descriptor = newDesc\<lparr>desc_Platform := cf_Platform cf\<rparr>\<rparr>])
                      w1)))"

definition buildImageIndex ::
  "env \<Rightarrow> ChartImage \<Rightarrow> string \<Rightarrow> world \<Rightarrow> (error + ImageIndex) \<times> world" where
  "buildImageIndex E imageDesc imagesDir w =
     (let base = IndexMediaType empty_Index DockerManifestList
      in case build_adds E imagesDir (Digests imageDesc) [] w of
           (Inl err, w') \<Rightarrow> (Inl err, w')
         | (Inr adds, w') \<Rightarrow> (Inr (AppendManifests base adds), w'))"

definition pushImage :: "env \<Rightarrow> ChartImage \<Rightarrow> string \<Rightarrow> world \<Rightarrow> error option \<times> world" where
  "pushImage E imgData imagesDir w =
     (case buildImageIndex E imgData imagesDir w of
        (Inl err, w1) \<Rightarrow> (Some (Errorf_w ''failed to build image index: '' err), w1)
      | (Inr idx, w1) \<Rightarrow>
          (case name_ParseReference E (Image imgData) of
             Inl err \<Rightarrow>
               (Some (Errorf_w (''failed to parse image reference '' @ fmt_q E (Image imgData) @ '': '') err),
                emit (Call_ParseReference (Image imgData)) w1)
           | Inr ref \<Rightarrow>
               (let w2 = emit (Call_ParseReference (Image imgData)) w1;
                    w3 = tick (emit (Call_WriteIndex ref idx) w2)
                in case remote_WriteIndex E (clock w2) ref of
                     Some err \<Rightarrow> (Some (Errorf_w ''failed to write image index: '' err), w3)
                   | None \<Rightarrow> (None, w3\<lparr>pushed := pushed w3 @ [(ref, idx)]\<rparr>))))"

definition push_attempt :: "env \<Rightarrow> ChartImage \<Rightarrow> string \<Rightarrow> world \<Rightarrow> outcome \<times> world" where
  "push_attempt E imgData imagesDir w =
     (case pushImage E imgData imagesDir w of (err, w') \<Rightarrow> (Returned err, w'))"

text \<open>The closure passed to \<^verbatim>\<open>ExecuteWithRetry\<close> by \<^verbatim>\<open>PushImages\<close>.\<close>

definition push_cb ::
  "env \<Rightarrow> Configuration \<Rightarrow> ChartImage \<Rightarrow> string \<Rightarrow> int \<Rightarrow> error option \<Rightarrow> world \<Rightarrow> outcome \<times> world" where
  "push_cb E cfg imgData imagesDir try prevErr w =
     (if try > 0 then
        (if ctx_done (Context cfg) (clock w) then (Returned prevErr, w)
         else case Log cfg of
                None \<Rightarrow> (Panicked nil_dereference, w)
              | Some l \<Rightarrow>
                  push_attempt E imgData imagesDir
                    (emit (PB_Warnf (''Failed to push image: retrying '' @ fmt_d try @ ''/''
                                       @ fmt_d (MaxRetries cfg)))
                       (emit (Log_Debugf (''Failed to push image: '' @ fmt_v prevErr)) w)))
      else push_attempt E imgData imagesDir w)"

definition push_unit ::
  "env \<Rightarrow> Configuration \<Rightarrow> string \<Rightarrow> ChartImage \<Rightarrow> world \<Rightarrow> outcome \<times> world" where
  "push_unit E cfg imagesDir imgData w =
     (let w1 = emit (PB_UpdateTitle (''Pushing image '' @ fmt_q E (Image imgData))) (emit (PB_Add 1) w)
      in case ExecuteWithRetry (MaxRetries cfg) (push_cb E cfg imgData imagesDir) w1 of
           (Panicked p, w') \<Rightarrow> (Panicked p, w')
         | (Returned (Some err), w') \<Rightarrow>
             (Returned (Some (Errorf_w (''failed to push image '' @ fmt_q E (Name imgData) @ '': '') err)), w')
         | (Returned None, w') \<Rightarrow> (Returned None, w'))"

fun push_images ::
  "env \<Rightarrow> Configuration \<Rightarrow> string \<Rightarrow> ChartImage list \<Rightarrow> world \<Rightarrow> outcome \<times> world" where
  "push_images E cfg imagesDir [] w = (Returned None, w)"
| "push_images E cfg imagesDir (imgData # rest) w =
     (if ctx_done (Context cfg) (clock w) then (Returned (Some cancelled_execution), w)
      else case push_unit E cfg imagesDir imgData w of
             (Returned None, w') \<Rightarrow> push_images E cfg imagesDir rest w'
           | (r, w') \<Rightarrow> (r, w'))"

definition PushImages ::
  "env \<Rightarrow> ImagesLock \<Rightarrow> string \<Rightarrow> Option list \<Rightarrow> world \<Rightarrow> outcome \<times> world" where
  "PushImages E lock imagesDir opts w =
     (let cfg = NewConfiguration E opts;
          w1 = emit PB_Start (emit (PB_UpdateTitle ''Pushing Images'')
                 (emit (PB_WithTotal (int (length (Images lock)))) w))
      in case push_images E cfg imagesDir (Images lock) w1 of
           (r, w2) \<Rightarrow> (r, emit PB_Stop w2))"

section \<open>testutil: reading the manifests of a remote image\<close>

record DigestData =
  dd_Digest :: string
  dd_Arch :: string

text \<open>Indexing a Go map: an absent key gives the zero value, the empty string.\<close>

definition map_index :: "(string \<rightharpoonup> string) \<Rightarrow> string \<Rightarrow> string" where
  "map_index m k = (case m k of None \<Rightarrow> [] | Some v \<Rightarrow> v)"

text \<open>\<^verbatim>\<open>errors.Join(allErrors, err)\<close>: the nil values are dropped.\<close>

definition errors_Join :: "error option \<Rightarrow> error \<Rightarrow> error option" where
  "errors_Join allErrors err =
     Some (Joined (case allErrors of None \<Rightarrow> [err] | Some e \<Rightarrow> [e, err]))"

text \<open>The loop over \<^verbatim>\<open>idx.Manifests\<close>, with the map \<^verbatim>\<open>digests\<close> and \<^verbatim>\<open>allErrors\<close>.\<close>

fun read_manifests ::
  "env \<Rightarrow> v1_Descriptor list \<Rightarrow> (string \<rightharpoonup> DigestData) \<Rightarrow> error option
     \<Rightarrow> (string \<rightharpoonup> DigestData) \<times> error option" where
  "read_manifests E [] digests allErrors = (digests, allErrors)"
| "read_manifests E (img # rest) digests allErrors =
     (if map_index (Annotations img) ''vnd.docker.reference.type'' = ''attestation-manifest''
      then read_manifests E rest digests allErrors
      else if MediaType img = OCIManifestSchema1 \<or> MediaType img = DockerManifestSchema2
      then (case desc_Platform img of
              None \<Rightarrow> read_manifests E rest digests allErrors
            | Some p \<Rightarrow>
                read_manifests E rest
                  (digests(OS p @ ''/'' @ Architecture p \<mapsto>
                     \<lparr>dd_Digest = desc_Digest img, dd_Arch = OS p @ ''/'' @ Architecture p\<rparr>))
                  allErrors)
      else read_manifests E rest digests
             (errors_Join allErrors (Msg (''unknown media type '' @ fmt_q E (MediaType img)))))"

definition ReadRemoteImageManifest ::
  "env \<Rightarrow> string \<Rightarrow> world \<Rightarrow> ((string \<rightharpoonup> DigestData) option \<times> error option) \<times> world" where
  "ReadRemoteImageManifest E src w =
     (case name_ParseReference E src of
        Inl err \<Rightarrow>
          ((None, Some (Errorf_w (''failed to parse reference '' @ fmt_q E src @ '': '') err)),
           emit (Call_ParseReference src) w)
      | Inr ref \<Rightarrow>
          (let w2 = tick (emit (Call_Get ref) (emit (Call_ParseReference src) w))
           in case remote_Get E (clock w) ref of
                Inl err \<Rightarrow> ((None, Some (Errorf_w ''failed to get remote image: '' err)), w2)
              | Inr desc \<Rightarrow>
                  (case json_Unmarshal E (rd_Manifest desc) of
                     None \<Rightarrow> ((None, Some (Msg ''failed to parse images data'')), w2)
                   | Some idx \<Rightarrow>
                       (case read_manifests E (Manifests idx) Map.empty None of
                          (digests, allErrors) \<Rightarrow> ((Some digests, allErrors), w2)))))"

section \<open>cmd/dt: the pull and wrap commands\<close>

text \<open>
  \<^verbatim>\<open>utils.FileExists\<close> and \<^verbatim>\<open>imagelock.FromYAMLFile\<close> read the chart directory.
\<close>

definition FileExists :: "world \<Rightarrow> string \<Rightarrow> bool" where
  "FileExists w path = (fs w path \<noteq> None)"

definition FromYAMLFile :: "string \<Rightarrow> world \<Rightarrow> error + ImagesLock" where
  "FromYAMLFile path w =
     (case fs w path of
        Some (LockFile l) \<Rightarrow> Inr l
      | _ \<Rightarrow> Inl (Msg (''failed to load '' @ path)))"

definition pullChartImages :: "env \<Rightarrow> Chart \<Rightarrow> Option list \<Rightarrow> world \<Rightarrow> outcome \<times> world" where
  "pullChartImages E chart opts w =
     (let chartRoot = chart_RootDir chart;
          imagesDir = chart_ImagesDir chart;
          lockFile = filepath_Join E chartRoot (DefaultImagesLockFileName E)
      in case FromYAMLFile lockFile w of
           Inl err \<Rightarrow> (Returned (Some (Msg ''failed to read Images.lock file'')), w)
         | Inr lock \<Rightarrow>
             (case PullImages E lock imagesDir opts w of
                (Returned (Some err), w') \<Rightarrow>
                  (Returned (Some (Errorf_v ''failed to pull images: '' err)), w')
              | (r, w') \<Rightarrow> (r, w')))"

record TarConfig =
  Prefix :: string

text \<open>
  Modelled from the spec: \<^verbatim>\<open>utils.TarContext\<close> is not among the sources. Packing
  writes at the output file one compressed archive of the whole chart root whose
  internal path prefix is the prefix of the configuration, or fails.
\<close>

definition TarContext ::
  "env \<Rightarrow> go_context \<Rightarrow> string \<Rightarrow> string \<Rightarrow> TarConfig \<Rightarrow> world \<Rightarrow> error option \<times> world" where
  "TarContext E ctx dir outFile cfg w =
     (let w1 = tick (emit (Call_TarContext dir outFile (Prefix cfg)) w)
      in case tar_Write E (clock w) outFile of
           Some err \<Rightarrow> (Some err, w1)
         | None \<Rightarrow> (None, write_file outFile (Bundle (Prefix cfg) dir) w1))"

definition compressChart ::
  "env \<Rightarrow> go_context \<Rightarrow> Chart \<Rightarrow> string \<Rightarrow> world \<Rightarrow> error option \<times> world" where
  "compressChart E ctx chart outputFile w =
     TarContext E ctx (chart_RootDir chart) outputFile
       \<lparr>Prefix = chart_Name chart @ ''-'' @ chart_Version chart\<rparr> w"

text \<open>
  Modelled from the spec: the Lock Generator (package imagelock) is not among the
  sources. It extracts the declared images, resolves each one to its (platform,
  digest) pairs, drops the platforms outside a non-empty filter, fails when an image
  keeps no platform or when the registry fails for one image, and assembles one Chart
  Image per declared image with one Digest Entry per platform kept.
\<close>

definition filter_platforms ::
  "string list \<Rightarrow> (string \<times> Digest_t) list \<Rightarrow> (string \<times> Digest_t) list" where
  "filter_platforms platforms ps =
     (if platforms = [] then ps else filter (\<lambda>pd. fst pd \<in> set platforms) ps)"

fun generate_images ::
  "env \<Rightarrow> string list \<Rightarrow> DeclaredImage list \<Rightarrow> world \<Rightarrow> (error + ChartImage list) \<times> world" where
  "generate_images E platforms [] w = (Inr [], w)"
| "generate_images E platforms (d # rest) w =
     (case resolve_platforms E (clock w) (decl_image d) of
        Inl err \<Rightarrow> (Inl err, tick w)
      | Inr ps \<Rightarrow>
          (if filter_platforms platforms ps = [] then (Inl (Msg ''NoPlatformsResolved''), tick w)
           else case generate_images E platforms rest (tick w) of
                  (Inl err, w') \<Rightarrow> (Inl err, w')
                | (Inr imgs, w') \<Rightarrow>
                    (Inr (\<lparr>Name = decl_name d, Image = decl_image d, Chart = decl_chartPath d,
                           Digests = map (\<lambda>pd. \<lparr>Digest = snd pd, Arch = fst pd\<rparr>)
                                       (filter_platforms platforms ps)\<rparr> # imgs), w')))"

definition GenerateFromChart ::
  "env \<Rightarrow> string \<Rightarrow> string list \<Rightarrow> world \<Rightarrow> (error + ImagesLock) \<times> world" where
  "GenerateFromChart E chartPath platforms w =
     (case chartutils_LoadChart E chartPath of
        Inl err \<Rightarrow> (Inl err, w)
      | Inr chart \<Rightarrow>
          (case listDeclaredImages E chartPath (DefaultAnnotationsKey E) of
             Inl err \<Rightarrow> (Inl err, w)
           | Inr decls \<Rightarrow>
               (case generate_images E platforms decls w of
                  (Inl err, w') \<Rightarrow> (Inl err, w')
                | (Inr imgs, w') \<Rightarrow>
                    (Inr \<lparr>lock_chart_name = chart_Name chart,
                          lock_chart_version = chart_Version chart,
                          Images = imgs\<rparr>, w'))))"

text \<open>
  Modelled from the spec: \<^verbatim>\<open>createImagesLock\<close> of package main is not among the
  sources. It generates a lock from the chart's annotations for the platforms asked
  for and persists it as the lock file.
\<close>

definition createImagesLock ::
  "env \<Rightarrow> go_context \<Rightarrow> string \<Rightarrow> string \<Rightarrow> string list \<Rightarrow> world \<Rightarrow> error option \<times> world" where
  "createImagesLock E ctx chartPath lockFile platforms w =
     (case GenerateFromChart E chartPath platforms
             (emit (Call_createImagesLock chartPath lockFile platforms) w) of
        (Inl err, w1) \<Rightarrow> (Some (Errorf_w ''failed to generate Images.lock: '' err), w1)
      | (Inr lock, w1) \<Rightarrow>
          (case os_WriteFile E (clock w1) lockFile of
             Some err \<Rightarrow>
               (Some (Errorf_w ''failed to write Images.lock: '' err),
                tick (emit (Call_WriteFile lockFile) w1))
           | None \<Rightarrow>
               (None, write_file lockFile (LockFile lock) (tick (emit (Call_WriteFile lockFile) w1)))))"

text \<open>
  Modelled from the spec: \<^verbatim>\<open>verifyLock\<close> of package main is not among the sources.
  The Lock Verifier regenerates a lock in memory and diffs it against the persisted
  one: the entries are (name, platform, digest), and an entry is changed when the
  persisted lock has the same (name, platform) with another digest.
\<close>

definition lock_entries :: "ImagesLock \<Rightarrow> (string \<times> string \<times> string) list" where
  "lock_entries l =
     concat (map (\<lambda>i. map (\<lambda>d. (Name i, Arch d, digest_String (Digest d))) (Digests i)) (Images l))"

definition entry_key :: "string \<times> string \<times> string \<Rightarrow> string \<times> string" where
  "entry_key e = (fst e, fst (snd e))"

definition lock_diff ::
  "ImagesLock \<Rightarrow> ImagesLock
     \<Rightarrow> (string \<times> string \<times> string) list \<times> (string \<times> string \<times> string) list
         \<times> (string \<times> string \<times> string) list" where
  "lock_diff persisted fresh =
     (filter (\<lambda>e. entry_key e \<notin> entry_key ` set (lock_entries persisted)) (lock_entries fresh),
      filter (\<lambda>e. entry_key e \<notin> entry_key ` set (lock_entries fresh)) (lock_entries persisted),
      filter (\<lambda>e. entry_key e \<in> entry_key ` set (lock_entries persisted)
                   \<and> e \<notin> set (lock_entries persisted)) (lock_entries fresh))"

definition verifyLock :: "env \<Rightarrow> string \<Rightarrow> string \<Rightarrow> world \<Rightarrow> error option \<times> world" where
  "verifyLock E chartPath lockFile w =
     (case FromYAMLFile lockFile w of
        Inl err \<Rightarrow> (Some err, emit (Call_verifyLock chartPath lockFile) w)
      | Inr persisted \<Rightarrow>
          (case GenerateFromChart E chartPath [] (emit (Call_verifyLock chartPath lockFile) w) of
             (Inl err, w1) \<Rightarrow> (Some err, w1)
           | (Inr fresh, w1) \<Rightarrow>
               (case lock_diff persisted fresh of
                  ([], [], []) \<Rightarrow> (None, w1)
                | (added, removed, changed) \<Rightarrow> (Some (DriftError added removed changed), w1))))"

text \<open>
  The section logger (package internal/log): \<^verbatim>\<open>ExecuteStep\<close> and \<^verbatim>\<open>Section\<close> announce
  the step and return the error of the function they run; \<^verbatim>\<open>Failf\<close> logs and returns
  the formatted error.
\<close>

definition Failf :: "string \<Rightarrow> error \<Rightarrow> error" where
  "Failf prefix err = Errorf_w prefix err"

definition resolveInputChartPath ::
  "env \<Rightarrow> string \<Rightarrow> (string \<rightharpoonup> string) \<Rightarrow> world \<Rightarrow> (error + string) \<times> world" where
  "resolveInputChartPath E inputPath flags w =
     (case getGlobalTempWorkDir E of
        Inl err \<Rightarrow> (Inl err, w)
      | Inr tmpDir \<Rightarrow>
          (if take 6 inputPath = ''oci://'' then
             (let w1 = emit (Log_Step ''Fetching remote Helm chart'') w
              in case flags ''version'' of
                   None \<Rightarrow>
                     (Inl (Failf ''Failed to download Helm chart: ''
                             (Errorf_w ''failed to retrieve version flag: ''
                                (Msg ''flag accessed but not defined: version''))), w1)
                 | Some version \<Rightarrow>
                     (case utils_FetchRemoteChart E (clock w1) inputPath version tmpDir of
                        Inl err \<Rightarrow> (Inl (Failf ''Failed to download Helm chart: '' err), tick w1)
                      | Inr chartPath \<Rightarrow>
                          (Inr chartPath,
                           emit (Log_Infof (''Helm chart downloaded to '' @ fmt_q E chartPath)) (tick w1))))
           else if utils_IsTarFile E inputPath then
             (let w1 = emit (Log_Step ''Uncompressing Helm chart'') w
              in case untarChart E (clock w1) inputPath tmpDir of
                   Inl err \<Rightarrow>
                     (Inl (Failf (''Failed to uncompress '' @ fmt_q E inputPath @ '': '') err), tick w1)
                 | Inr chartPath \<Rightarrow>
                     (Inr chartPath,
                      emit (Log_Infof (''Helm chart uncompressed to '' @ fmt_q E chartPath)) (tick w1)))
           else (Inr inputPath, w)))"

text \<open>
  \<^verbatim>\<open>wrapChart\<close> in three stages: the lock stage is the \<^verbatim>\<open>if utils.FileExists(lockFile)\<close>
  statement, the last stage is what follows it.
\<close>

definition wrap_lock_stage ::
  "env \<Rightarrow> go_context \<Rightarrow> string \<Rightarrow> string \<Rightarrow> string list \<Rightarrow> world \<Rightarrow> error option \<times> world" where
  "wrap_lock_stage E ctx chartPath lockFile platforms w =
     (if FileExists w lockFile then
        (case verifyLock E chartPath lockFile (emit (Log_Step ''Verifying Images.lock'') w) of
           (Some err, w') \<Rightarrow> (Some (Failf ''Failed to verify lock: '' err), w')
         | (None, w') \<Rightarrow>
             (None, emit (Log_Infof (''Helm chart '' @ fmt_q E chartPath @ '' lock is valid'')) w'))
      else
        (case createImagesLock E ctx chartPath lockFile platforms
                (emit (Log_Step ''Images.lock file does not exist. Generating it from annotations...'') w) of
           (Some err, w') \<Rightarrow> (Some (Failf ''Failed to generate lock: '' err), w')
         | (None, w') \<Rightarrow>
             (None, emit (Log_Infof (''Images.lock file written to '' @ fmt_q E lockFile)) w')))"

definition wrap_output_file :: "env \<Rightarrow> Chart \<Rightarrow> string \<Rightarrow> string" where
  "wrap_output_file E chart outputFile =
     (if outputFile = [] then
        (case filepath_Abs E (chart_Name chart @ ''-'' @ chart_Version chart @ ''.wrap.tgz'') of
           Inr p \<Rightarrow> p
         | Inl err \<Rightarrow>
             filepath_Join E (filepath_Dir E (chart_RootDir chart))
               (chart_Name chart @ ''-'' @ chart_Version chart @ ''.wrap.tgz''))
      else outputFile)"

definition wrap_pull_and_pack ::
  "env \<Rightarrow> go_context \<Rightarrow> Chart \<Rightarrow> string \<Rightarrow> world \<Rightarrow> outcome \<times> world" where
  "wrap_pull_and_pack E ctx chart outputFile w =
     (case pullChartImages E chart
             [WithLog (SectionLog (chart_ImagesDir chart)), WithContext ctx,
              WithProgressBar (SectionProgressBar (chart_ImagesDir chart))]
             (emit (Log_Step (''Pulling images into '' @ fmt_q E (chart_ImagesDir chart))) w) of
        (Panicked p, w1) \<Rightarrow> (Panicked p, w1)
      | (Returned (Some err), w1) \<Rightarrow> (Returned (Some (Failf [] err)), w1)
      | (Returned None, w1) \<Rightarrow>
          (case compressChart E ctx chart (wrap_output_file E chart outputFile)
                  (emit (Log_Step ''Compressing Helm chart...'')
                     (emit (Log_Infof ''All images pulled successfully'') w1)) of
             (Some err, w2) \<Rightarrow> (Returned (Some (Failf ''failed to wrap Helm chart: '' err)), w2)
           | (None, w2) \<Rightarrow>
               (Returned None,
                emit (Log_Infof (''Helm chart wrapped into '' @ fmt_q E (wrap_output_file E chart outputFile)))
                  (emit (Log_Infof [])
                     (emit (Log_Infof (''Compressed into '' @ fmt_q E (wrap_output_file E chart outputFile)))
                        w2)))))"

definition wrapChart ::
  "env \<Rightarrow> go_context \<Rightarrow> string \<Rightarrow> string \<Rightarrow> string list \<Rightarrow> (string \<rightharpoonup> string) \<Rightarrow> world
     \<Rightarrow> outcome \<times> world" where
  "wrapChart E ctx inputPath outputFile platforms flags w =
     (case resolveInputChartPath E inputPath flags
             (emit (Log_Step (''Wrapping Helm chart '' @ fmt_q E inputPath)) w) of
        (Inl err, w1) \<Rightarrow> (Returned (Some err), w1)
      | (Inr chartPath, w1) \<Rightarrow>
          (case chartutils_LoadChart E chartPath of
             Inl err \<Rightarrow> (Returned (Some (Errorf_w ''failed to load Helm chart: '' err)), w1)
           | Inr chart \<Rightarrow>
               (case getImageLockFilePath E chartPath of
                  Inl err \<Rightarrow>
                    (Returned (Some (Errorf_w ''failed to determine Images.lock file location: '' err)), w1)
                | Inr lockFile \<Rightarrow>
                    (case wrap_lock_stage E ctx chartPath lockFile platforms w1 of
                       (Some err, w2) \<Rightarrow> (Returned (Some err), w2)
                     | (None, w2) \<Rightarrow> wrap_pull_and_pack E ctx chart outputFile w2))))"

section \<open>Notions used by the properties\<close>

text \<open>The events a run adds to the trace, and the writes it adds to the registry.\<close>

definition new_events :: "world \<Rightarrow> world \<Rightarrow> event list" where
  "new_events w w' = drop (length (events w)) (events w')"

definition new_pushed :: "world \<Rightarrow> world \<Rightarrow> (reference \<times> ImageIndex) list" where
  "new_pushed w w' = drop (length (pushed w)) (pushed w')"

text \<open>\<open>extends P w w'\<close>: the trace of \<open>w'\<close> is the trace of \<open>w\<close> followed by events that satisfy \<open>P\<close>.\<close>

definition extends :: "(event \<Rightarrow> bool) \<Rightarrow> world \<Rightarrow> world \<Rightarrow> bool" where
  "extends P w w' = (\<exists>evs. events w' = events w @ evs \<and> list_all P evs)"

text \<open>The reference string the pull forms for a digest entry of an image.\<close>

definition pinned_source :: "ChartImage \<Rightarrow> DigestInfo \<Rightarrow> string" where
  "pinned_source imgDesc dgst = Image imgDesc @ ''@'' @ digest_String (Digest dgst)"

text \<open>
  The events an attempt to pull one digest entry may add, the events of its transfer
  unit, and the events of the units of a list of images.
\<close>

fun attempt_event :: "env \<Rightarrow> string \<Rightarrow> ChartImage \<Rightarrow> DigestInfo \<Rightarrow> event \<Rightarrow> bool" where
  "attempt_event E imagesDir imgDesc dgst (Call_ParseReference src) =
     (src = pinned_source imgDesc dgst)"
| "attempt_event E imagesDir imgDesc dgst (Call_Get ref) =
     (name_ParseReference E (pinned_source imgDesc dgst) = Inr ref)"
| "attempt_event E imagesDir imgDesc dgst (Call_Save tag path) =
     (tag = Image imgDesc \<and> path = getImageTarFile E imagesDir dgst)"
| "attempt_event E imagesDir imgDesc dgst (PB_Warnf s) = True"
| "attempt_event E imagesDir imgDesc dgst (Log_Debugf s) = True"
| "attempt_event E imagesDir imgDesc dgst ev = False"

fun unit_event :: "env \<Rightarrow> string \<Rightarrow> ChartImage \<Rightarrow> DigestInfo \<Rightarrow> event \<Rightarrow> bool" where
  "unit_event E imagesDir imgDesc dgst (PB_Add n) = (n = 1)"
| "unit_event E imagesDir imgDesc dgst (PB_UpdateTitle s) = True"
| "unit_event E imagesDir imgDesc dgst ev = attempt_event E imagesDir imgDesc dgst ev"

definition pull_event :: "env \<Rightarrow> string \<Rightarrow> ChartImage list \<Rightarrow> event \<Rightarrow> bool" where
  "pull_event E imagesDir images ev =
     (\<exists>imgDesc \<in> set images. \<exists>dgst \<in> set (Digests imgDesc). unit_event E imagesDir imgDesc dgst ev)"

text \<open>The totals given to the progress bar, and the units added to it.\<close>

fun reported_totals :: "event list \<Rightarrow> int list" where
  "reported_totals [] = []"
| "reported_totals (PB_WithTotal n # evs) = n # reported_totals evs"
| "reported_totals (ev # evs) = reported_totals evs"

fun progress_added :: "event list \<Rightarrow> int" where
  "progress_added [] = 0"
| "progress_added (PB_Add n # evs) = n + progress_added evs"
| "progress_added (ev # evs) = progress_added evs"

text \<open>The requests a trace makes to the registry: the references read and written.\<close>

fun registry_reads :: "event list \<Rightarrow> reference list" where
  "registry_reads [] = []"
| "registry_reads (Call_Get ref # evs) = ref # registry_reads evs"
| "registry_reads (ev # evs) = registry_reads evs"

fun registry_writes :: "event list \<Rightarrow> reference list" where
  "registry_writes [] = []"
| "registry_writes (Call_WriteIndex ref idx # evs) = ref # registry_writes evs"
| "registry_writes (ev # evs) = registry_writes evs"

text \<open>The world in which the loop of \<^verbatim>\<open>PullImages\<close> starts, and a unit's retry loop.\<close>

definition pull_started :: "ImagesLock \<Rightarrow> string \<Rightarrow> world \<Rightarrow> world" where
  "pull_started lock imagesDir w =
     emit PB_Start (emit (PB_UpdateTitle ''Pulling Images'')
       (emit (PB_WithTotal (getNumberOfArtifacts (Images lock)))
          (tick (emit (Call_MkdirAll imagesDir) w))))"

definition unit_started :: "ChartImage \<Rightarrow> DigestInfo \<Rightarrow> world \<Rightarrow> world" where
  "unit_started imgDesc dgst w =
     emit (PB_UpdateTitle (''Saving image '' @ Chart imgDesc @ ''/'' @ Name imgDesc
             @ '' '' @ Image imgDesc @ '' ('' @ Arch dgst @ '')''))
       (emit (PB_Add 1) w)"

definition push_started :: "ImagesLock \<Rightarrow> world \<Rightarrow> world" where
  "push_started lock w =
     emit PB_Start (emit (PB_UpdateTitle ''Pushing Images'')
       (emit (PB_WithTotal (int (length (Images lock)))) w))"

text \<open>
  An environment is stationary when the registry, the archive writer and the directory
  creation answer a call in the same way at every time: the registry returns the
  same bytes for a reference whenever it is asked.
\<close>

definition stationary :: "env \<Rightarrow> bool" where
  "stationary E =
     (\<forall>t. os_MkdirAll E t = os_MkdirAll E 0 \<and> remote_Get E t = remote_Get E 0
          \<and> crane_Save E t = crane_Save E 0)"

text \<open>
  What a pull stores for a digest entry in a stationary environment, if the pull of
  the entry succeeds, and the cache after the entries of a list of images are stored.
\<close>

definition pull_result :: "env \<Rightarrow> string \<Rightarrow> ChartImage \<Rightarrow> DigestInfo \<Rightarrow> file_t option" where
  "pull_result E imagesDir imgDesc dgst =
     (case name_ParseReference E (pinned_source imgDesc dgst) of
        Inl err \<Rightarrow> None
      | Inr ref \<Rightarrow>
          (case remote_Get E 0 ref of
             Inl err \<Rightarrow> None
           | Inr rmt \<Rightarrow>
               (case rd_Image rmt of
                  Inl err \<Rightarrow> None
                | Inr img \<Rightarrow>
                    (case crane_Save E 0 (getImageTarFile E imagesDir dgst) of
                       Saved \<Rightarrow> Some (Tarball img (Image imgDesc))
                     | _ \<Rightarrow> None))))"

definition cache_store ::
  "env \<Rightarrow> string \<Rightarrow> ChartImage \<Rightarrow> DigestInfo \<Rightarrow> (string \<rightharpoonup> file_t) \<Rightarrow> (string \<rightharpoonup> file_t)" where
  "cache_store E imagesDir imgDesc dgst m =
     (case pull_result E imagesDir imgDesc dgst of
        None \<Rightarrow> m
      | Some f \<Rightarrow> m(getImageTarFile E imagesDir dgst \<mapsto> f))"

definition cache_after ::
  "env \<Rightarrow> string \<Rightarrow> ChartImage list \<Rightarrow> (string \<rightharpoonup> file_t) \<Rightarrow> (string \<rightharpoonup> file_t)" where
  "cache_after E imagesDir images m =
     fold (\<lambda>imgDesc. fold (cache_store E imagesDir imgDesc) (Digests imgDesc)) images m"

definition is_tarball :: "file_t option \<Rightarrow> bool" where
  "is_tarball f = (case f of Some (Tarball img tag) \<Rightarrow> True | _ \<Rightarrow> False)"


text \<open>
  The attempts of a trace (each call of \<^verbatim>\<open>pullImage\<close> starts by parsing its reference),
  and a transfer unit every attempt of which fails from some time on.
\<close>

fun count_attempts :: "event list \<Rightarrow> nat" where
  "count_attempts [] = 0"
| "count_attempts (Call_ParseReference src # evs) = Suc (count_attempts evs)"
| "count_attempts (ev # evs) = count_attempts evs"


section \<open>Example values\<close>

text \<open>Two digests in their encoded form (64 hexadecimal digits).\<close>

definition ex_hex_a :: string where
  "ex_hex_a = replicate 64 (CHR ''a'')"

definition ex_hex_b :: string where
  "ex_hex_b = replicate 64 (CHR ''b'')"

definition ex_amd64 :: DigestInfo where
  "ex_amd64 = \<lparr>Digest = \<lparr>Algorithm = ''sha256'', Encoded = ex_hex_a\<rparr>, Arch = ''linux/amd64''\<rparr>"

definition ex_arm64 :: DigestInfo where
  "ex_arm64 = \<lparr>Digest = \<lparr>Algorithm = ''sha256'', Encoded = ex_hex_b\<rparr>, Arch = ''linux/arm64''\<rparr>"

definition ex_image :: ChartImage where
  "ex_image = \<lparr>Name = ''app'', Image = ''repo/app'', Chart = ''demo'', Digests = [ex_amd64, ex_arm64]\<rparr>"

definition ex_lock :: ImagesLock where
  "ex_lock = \<lparr>lock_chart_name = ''demo'', lock_chart_version = ''1.0.0'', Images = [ex_image]\<rparr>"

definition ex_chart :: Chart where
  "ex_chart = \<lparr>chart_Name = ''demo'', chart_Version = ''1.0.0'', chart_RootDir = ''demo'',
               chart_ImagesDir = ''demo/images''\<rparr>"

text \<open>The image the example registry serves for a reference.\<close>

definition ex_served :: "reference \<Rightarrow> v1_Image" where
  "ex_served ref =
     \<lparr>img_content = ref,
      img_Descriptor = Inr \<lparr>MediaType = DockerManifestSchema2, desc_Digest = ref,
                            desc_Platform = None, Annotations = Map.empty\<rparr>,
      img_ConfigFile = Inr \<lparr>cf_Platform = Some \<lparr>OS = ''linux'', Architecture = ref, Variant = []\<rparr>\<rparr>\<rparr>"

text \<open>
  The example environment quotes the printable ASCII strings of the examples as
  \<^verbatim>\<open>%q\<close> does, and its parser accepts a reference with a digest only when the digest is
  \<^verbatim>\<open>sha256:\<close> and 64 hexadecimal digits.
\<close>

definition ex_quote_char :: "char \<Rightarrow> string" where
  "ex_quote_char c =
     (if c = CHR 0x22 then [CHR 0x5C, CHR 0x22]
      else if c = CHR 0x5C then [CHR 0x5C, CHR 0x5C]
      else if c = CHR 0x0A then [CHR 0x5C, CHR ''n'']
      else if c = CHR 0x09 then [CHR 0x5C, CHR ''t'']
      else if c = CHR 0x0D then [CHR 0x5C, CHR ''r'']
      else [c])"

definition ex_quote :: "string \<Rightarrow> string" where
  "ex_quote s = [CHR 0x22] @ concat (map ex_quote_char s) @ [CHR 0x22]"

definition is_hex :: "char \<Rightarrow> bool" where
  "is_hex c = (c \<in> set ''0123456789abcdef'')"

definition ex_ParseReference :: "string \<Rightarrow> error + reference" where
  "ex_ParseReference s =
     (if s = [] then Inl (Msg ''could not parse reference'')
      else case dropWhile (\<lambda>c. c \<noteq> CHR ''@'') s of
             [] \<Rightarrow> Inr s
           | at # dg \<Rightarrow>
               (if take 7 dg = ''sha256:'' \<and> length (drop 7 dg) = 64 \<and> list_all is_hex (drop 7 dg)
                then Inr s
                else Inl (Msg ''invalid checksum digest format'')))"

text \<open>An environment in which every call succeeds, and one whose registry is down.\<close>

definition ex_env :: env where
  "ex_env =
     \<lparr>fmt_q = ex_quote,
      DefaultAnnotationsKey = ''images'',
      filepath_Join = (\<lambda>dir f. dir @ ''/'' @ f),
      os_MkdirAll = (\<lambda>t p. None),
      name_ParseReference = ex_ParseReference,
      remote_Get = (\<lambda>t ref. Inr \<lparr>rd_Manifest = [], rd_Image = Inr (ex_served ref)\<rparr>),
      crane_Save = (\<lambda>t p. Saved),
      crane_Load_error = (\<lambda>p. Msg ''no such file''),
      remote_WriteIndex = (\<lambda>t ref. None),
      json_Unmarshal = (\<lambda>s. None),
      DefaultImagesLockFileName = ''Images.lock'',
      filepath_Abs = (\<lambda>p. Inr (''/work/'' @ p)),
      filepath_Dir = (\<lambda>p. ''.''),
      os_WriteFile = (\<lambda>t p. None),
      tar_Write = (\<lambda>t p. None),
      getGlobalTempWorkDir = Inr ''/tmp/dt'',
      utils_FetchRemoteChart = (\<lambda>t url version dir. Inl (Msg ''not found'')),
      utils_IsTarFile = (\<lambda>p. False),
      untarChart = (\<lambda>t p dir. Inl (Msg ''not an archive'')),
      chartutils_LoadChart = (\<lambda>p. Inr ex_chart),
      getImageLockFilePath = (\<lambda>p. Inr (p @ ''/Images.lock'')),
      listDeclaredImages = (\<lambda>p key. Inr [\<lparr>decl_name = ''app'', decl_image = ''repo/app'',
                                             decl_chartPath = ''demo''\<rparr>]),
      resolve_platforms = (\<lambda>t image. Inr [(''linux/amd64'', Digest ex_amd64),
                                             (''linux/arm64'', Digest ex_arm64)])\<rparr>"




definition ex_world :: world where
  "ex_world = \<lparr>clock = 0, fs = Map.empty, pushed = [], events = []\<rparr>"

section \<open>The trace of a pull\<close>

lemma events_emit [simp]: "events (emit ev w) = events w @ [ev]"
  by (simp add: emit_def)

lemma clock_emit [simp]: "clock (emit ev w) = clock w"
  by (simp add: emit_def)

lemma fs_emit [simp]: "fs (emit ev w) = fs w"
  by (simp add: emit_def)

lemma events_tick [simp]: "events (tick w) = events w"
  by (simp add: tick_def)

lemma clock_tick [simp]: "clock (tick w) = Suc (clock w)"
  by (simp add: tick_def)

lemma fs_tick [simp]: "fs (tick w) = fs w"
  by (simp add: tick_def)

lemma events_write_file [simp]: "events (write_file p f w) = events w"
  by (simp add: write_file_def)

lemma clock_write_file [simp]: "clock (write_file p f w) = clock w"
  by (simp add: write_file_def)

lemma fs_write_file [simp]: "fs (write_file p f w) = (fs w)(p \<mapsto> f)"
  by (simp add: write_file_def)

lemma pushed_emit [simp]: "pushed (emit ev w) = pushed w"
  by (simp add: emit_def)

lemma pushed_tick [simp]: "pushed (tick w) = pushed w"
  by (simp add: tick_def)

lemma pushed_write_file [simp]: "pushed (write_file p f w) = pushed w"
  by (simp add: write_file_def)

lemma getNumberOfArtifacts_fold:
  "fold (\<lambda>imgDesc n. n + int (length (Digests imgDesc))) images k
     = k + (\<Sum>imgDesc\<leftarrow>images. int (length (Digests imgDesc)))"
  by (induction images arbitrary: k) simp_all

lemma getNumberOfArtifacts_sum:
  "getNumberOfArtifacts images = (\<Sum>imgDesc\<leftarrow>images. int (length (Digests imgDesc)))"
  by (simp add: getNumberOfArtifacts_def getNumberOfArtifacts_fold)


lemma extends_refl [simp]: "extends P w w"
  by (simp add: extends_def)

lemma extends_trans: "extends P w w' \<Longrightarrow> extends P w' w'' \<Longrightarrow> extends P w w''"
  by (auto simp: extends_def)

lemma extends_emit: "P ev \<Longrightarrow> extends P w w' \<Longrightarrow> extends P w (emit ev w')"
  by (auto simp: extends_def)

lemma extends_emit_left: "P ev \<Longrightarrow> extends P (emit ev w) w' \<Longrightarrow> extends P w w'"
  by (auto simp: extends_def)

lemma extends_tick: "extends P w w' \<Longrightarrow> extends P w (tick w')"
  by (auto simp: extends_def)

lemma extends_write_file: "extends P w w' \<Longrightarrow> extends P w (write_file p f w')"
  by (auto simp: extends_def)

lemma extends_new_events: "extends P w w' \<Longrightarrow> events w' = events w @ new_events w w' \<and> list_all P (new_events w w')"
  by (auto simp: extends_def new_events_def)

lemma pullImage_extends:
  "pullImage E (Image imgDesc) dgst imagesDir w = (r, w') \<Longrightarrow>
     extends (attempt_event E imagesDir imgDesc dgst) w w'"
  by (auto simp: pullImage_def Let_def extends_def pinned_source_def
        split: sum.splits save_outcome.splits)

lemma pull_attempt_extends:
  "pull_attempt E imgDesc dgst imagesDir w = (r, w') \<Longrightarrow>
     extends (attempt_event E imagesDir imgDesc dgst) w w'"
  by (auto simp: pull_attempt_def split: prod.splits sum.splits dest: pullImage_extends)

lemma pull_cb_extends:
  "pull_cb E cfg imgDesc dgst imagesDir try prevErr w = (r, w') \<Longrightarrow>
     extends (attempt_event E imagesDir imgDesc dgst) w w'"
  apply (auto simp: pull_cb_def split: if_splits option.splits dest: pull_attempt_extends)
  apply (drule pull_attempt_extends)
  apply (auto simp: extends_def)
  done

lemma retry_loop_extends:
  "\<forall>t prevErr w r w'. cb t prevErr w = (r, w') \<longrightarrow> extends P w w' \<Longrightarrow>
   retry_loop retries cb t prevErr w = (r, w') \<Longrightarrow> extends P w w'"
proof (induction retries cb t prevErr w arbitrary: r w' rule: retry_loop.induct)
  case (1 retries cb t prevErr w)
  obtain r1 w1 where c: "cb t prevErr w = (r1, w1)" by (cases "cb t prevErr w")
  have e1: "extends P w w1" using "1.prems"(1) c by blast
  show ?case
  proof (cases r1)
    case (Panicked p)
    with c "1.prems" e1 show ?thesis by (simp add: retry_loop.simps[of retries cb t])
  next
    case (Returned eo)
    show ?thesis
    proof (cases eo)
      case None
      with Returned c "1.prems" e1 show ?thesis by (simp add: retry_loop.simps[of retries cb t])
    next
      case (Some err)
      show ?thesis
      proof (cases "t + 1 < retries")
        case True
        with Some Returned c "1.prems"
        have "retry_loop retries cb (t + 1) (Some err) w1 = (r, w')"
          by (simp add: retry_loop.simps[of retries cb t])
        then have "extends P w1 w'"
          using "1.IH" "1.prems"(1) c Returned Some True by metis
        with e1 show ?thesis by (rule extends_trans)
      next
        case False
        with Some Returned c "1.prems" e1 show ?thesis by (simp add: retry_loop.simps[of retries cb t])
      qed
    qed
  qed
qed


lemma extends_mono: "extends P w w' \<Longrightarrow> (\<And>ev. P ev \<Longrightarrow> Q ev) \<Longrightarrow> extends Q w w'"
  by (auto simp: extends_def list_all_iff)

lemma attempt_unit_event: "attempt_event E d i g ev \<Longrightarrow> unit_event E d i g ev"
  by (cases ev) simp_all

lemma pull_unit_extends:
  "pull_unit E cfg imagesDir imgDesc dgst w = (r, w') \<Longrightarrow>
     extends (unit_event E imagesDir imgDesc dgst) w w'"
proof -
  assume a: "pull_unit E cfg imagesDir imgDesc dgst w = (r, w')"
  let ?w1 = "emit (PB_UpdateTitle (''Saving image '' @ Chart imgDesc @ ''/'' @ Name imgDesc
                       @ '' '' @ Image imgDesc @ '' ('' @ Arch dgst @ '')''))
                 (emit (PB_Add 1) w)"
  obtain r1 where r1: "ExecuteWithRetry (MaxRetries cfg) (pull_cb E cfg imgDesc dgst imagesDir) ?w1 = (r1, w')"
    using a by (auto simp: pull_unit_def Let_def split: prod.splits outcome.splits option.splits)
  have "extends (attempt_event E imagesDir imgDesc dgst) ?w1 w'"
    using r1 unfolding ExecuteWithRetry_def
    by (rule retry_loop_extends[rotated]) (blast intro: pull_cb_extends)
  then have "extends (unit_event E imagesDir imgDesc dgst) ?w1 w'"
    by (rule extends_mono) (rule attempt_unit_event)
  then show ?thesis by (auto simp: extends_def)
qed

lemma pull_digests_extends:
  "pull_digests E cfg imagesDir imgDesc ds w = (r, w') \<Longrightarrow>
     extends (\<lambda>ev. \<exists>dgst \<in> set ds. unit_event E imagesDir imgDesc dgst ev) w w'"
proof (induction ds arbitrary: w r w')
  case Nil
  then show ?case by simp
next
  case (Cons d ds)
  show ?case
  proof (cases "ctx_done (Context cfg) (clock w)")
    case True
    with Cons.prems show ?thesis by simp
  next
    case False
    obtain r1 w1 where u: "pull_unit E cfg imagesDir imgDesc d w = (r1, w1)"
      by (cases "pull_unit E cfg imagesDir imgDesc d w")
    have e1: "extends (\<lambda>ev. \<exists>dgst \<in> set (d # ds). unit_event E imagesDir imgDesc dgst ev) w w1"
      using pull_unit_extends[OF u] by (rule extends_mono) simp
    show ?thesis
    proof (cases "r1 = Returned None")
      case True
      with False u Cons.prems have "pull_digests E cfg imagesDir imgDesc ds w1 = (r, w')" by simp
      from Cons.IH[OF this]
      have "extends (\<lambda>ev. \<exists>dgst \<in> set (d # ds). unit_event E imagesDir imgDesc dgst ev) w1 w'"
        by (rule extends_mono) auto
      with e1 show ?thesis by (rule extends_trans)
    next
      case False
      with \<open>\<not> ctx_done (Context cfg) (clock w)\<close> u Cons.prems have "w' = w1"
        by (auto split: outcome.splits option.splits)
      with e1 show ?thesis by simp
    qed
  qed
qed

lemma pull_images_extends:
  "pull_images E cfg imagesDir images w = (r, w') \<Longrightarrow>
     extends (pull_event E imagesDir images) w w'"
proof (induction images arbitrary: w r w')
  case Nil
  then show ?case by simp
next
  case (Cons i images)
  obtain r1 w1 where u: "pull_digests E cfg imagesDir i (Digests i) w = (r1, w1)"
    by (cases "pull_digests E cfg imagesDir i (Digests i) w")
  have e1: "extends (pull_event E imagesDir (i # images)) w w1"
    using pull_digests_extends[OF u] by (rule extends_mono) (auto simp: pull_event_def)
  show ?case
  proof (cases "r1 = Returned None")
    case True
    with u Cons.prems have "pull_images E cfg imagesDir images w1 = (r, w')" by simp
    from Cons.IH[OF this]
    have "extends (pull_event E imagesDir (i # images)) w1 w'"
      by (rule extends_mono) (auto simp: pull_event_def)
    with e1 show ?thesis by (rule extends_trans)
  next
    case False
    with u Cons.prems have "w' = w1"
      by (auto split: outcome.splits option.splits)
    with e1 show ?thesis by simp
  qed
qed

lemma pull_event_no_total: "list_all (pull_event E d images) evs \<Longrightarrow> reported_totals evs = []"
proof (induction evs)
  case Nil
  then show ?case by simp
next
  case (Cons ev evs)
  then show ?case by (cases ev) (auto simp: pull_event_def)
qed

lemma reported_totals_append [simp]:
  "reported_totals (xs @ ys) = reported_totals xs @ reported_totals ys"
  by (induction xs rule: reported_totals.induct) simp_all

lemma new_events_append: "events w' = events w @ evs \<Longrightarrow> new_events w w' = evs"
  by (simp add: new_events_def)


lemma retry_loop_last:
  "retry_loop retries cb t prev w = (r, w') \<Longrightarrow> I w \<Longrightarrow>
   \<forall>t p w e w'. I w \<longrightarrow> cb t p w = (Returned (Some e), w') \<longrightarrow> I w' \<Longrightarrow>
   \<exists>t' p' w1. I w1 \<and> cb t' p' w1 = (r, w') \<and> (t' = t \<and> p' = prev \<or> t < t' \<and> p' \<noteq> None)
      \<and> (\<forall>e. r = Returned (Some e) \<longrightarrow> \<not> t' + 1 < retries)"
proof (induction retries cb t prev w arbitrary: r w' rule: retry_loop.induct)
  case (1 retries cb t prevErr w)
  obtain r1 w1 where c: "cb t prevErr w = (r1, w1)" by (cases "cb t prevErr w")
  show ?case
  proof (cases "\<exists>err. r1 = Returned (Some err) \<and> t + 1 < retries")
    case True
    then obtain err where r1: "r1 = Returned (Some err)" and lt: "t + 1 < retries" by blast
    from c r1 lt "1.prems"(1)
    have rec: "retry_loop retries cb (t + 1) (Some err) w1 = (r, w')"
      by (simp add: retry_loop.simps[of retries cb t])
    have I1: "I w1" using "1.prems"(2,3) c r1 by blast
    from "1.IH"[OF c[symmetric] r1 refl lt rec I1 "1.prems"(3)]
    obtain t' p' w2 where "I w2" "cb t' p' w2 = (r, w')"
       "t' = t + 1 \<and> p' = Some err \<or> t + 1 < t' \<and> p' \<noteq> None"
       "\<forall>e. r = Returned (Some e) \<longrightarrow> \<not> t' + 1 < retries"
      by blast
    then show ?thesis by (intro exI[of _ t'] exI[of _ p'] exI[of _ w2]) auto
  next
    case False
    with c "1.prems"(1) have "r = r1 \<and> w' = w1"
      by (auto simp: retry_loop.simps[of retries cb t] split: outcome.splits option.splits if_splits)
    with c "1.prems"(2) False show ?thesis
      by (intro exI[of _ t] exI[of _ prevErr] exI[of _ w]) auto
  qed
qed

lemma pullImage_success:
  "pullImage E im d dir w0 = (Inr f, w') \<Longrightarrow>
   \<exists>ref rmt img. name_ParseReference E (im @ ''@'' @ digest_String (Digest d)) = Inr ref
      \<and> remote_Get E (clock w0) ref = Inr rmt \<and> rd_Image rmt = Inr img
      \<and> crane_Save E (Suc (clock w0)) (getImageTarFile E dir d) = Saved
      \<and> f = getImageTarFile E dir d
      \<and> w' = write_file f (Tarball img im)
               (tick (emit (Call_Save im f) (tick (emit (Call_Get ref)
                  (emit (Call_ParseReference (im @ ''@'' @ digest_String (Digest d))) w0)))))"
  by (auto simp: pullImage_def Let_def split: sum.splits save_outcome.splits)

lemma pull_attempt_success:
  "pull_attempt E i d dir w0 = (Returned None, w') \<Longrightarrow>
   \<exists>f. pullImage E (Image i) d dir w0 = (Inr f, w')"
  by (auto simp: pull_attempt_def split: prod.splits sum.splits)

lemma pull_cb_calls_attempt:
  "pull_cb E cfg i d dir t p w1 = (r, w') \<Longrightarrow>
   (0 < t \<and> ctx_done (Context cfg) (clock w1) \<and> r = Returned p \<and> w' = w1)
   \<or> (0 < t \<and> \<not> ctx_done (Context cfg) (clock w1) \<and> Log cfg = None
        \<and> r = Panicked nil_dereference \<and> w' = w1)
   \<or> (0 < t \<and> \<not> ctx_done (Context cfg) (clock w1) \<and> Log cfg \<noteq> None
        \<and> pull_attempt E i d dir
             (emit (PB_Warnf (''Failed to pull image: retrying '' @ fmt_d t @ ''/''
                                @ fmt_d (MaxRetries cfg)))
                (emit (Log_Debugf (''Failed to pull image: '' @ fmt_v p)) w1)) = (r, w'))
   \<or> (t \<le> 0 \<and> pull_attempt E i d dir w1 = (r, w'))"
  by (auto simp: pull_cb_def split: if_splits option.splits)

lemma pull_cb_success:
  assumes "pull_cb E cfg i d dir t p w1 = (Returned None, w')" and "t = 0 \<or> p \<noteq> None"
  shows "\<exists>w0 f. extends (attempt_event E dir i d) w1 w0 \<and> fs w0 = fs w1 \<and> clock w0 = clock w1
      \<and> pullImage E (Image i) d dir w0 = (Inr f, w')"
proof -
  let ?wr = "emit (PB_Warnf (''Failed to pull image: retrying '' @ fmt_d t @ ''/''
                                @ fmt_d (MaxRetries cfg)))
                (emit (Log_Debugf (''Failed to pull image: '' @ fmt_v p)) w1)"
  have e: "extends (attempt_event E dir i d) w1 ?wr" by (simp add: extends_def)
  from pull_cb_calls_attempt[OF assms(1)] assms(2)
  consider "pull_attempt E i d dir ?wr = (Returned None, w')" | "pull_attempt E i d dir w1 = (Returned None, w')"
    by auto
  then show ?thesis
  proof cases
    case 1
    from pull_attempt_success[OF 1] e show ?thesis by (intro exI[of _ ?wr]) auto
  next
    case 2
    from pull_attempt_success[OF 2] show ?thesis by (intro exI[of _ w1]) auto
  qed
qed

lemma new_events_trans:
  "extends P w w' \<Longrightarrow> extends Q w' w'' \<Longrightarrow> new_events w w'' = new_events w w' @ new_events w' w''"
  by (auto simp: extends_def new_events_def)

lemma registry_reads_append [simp]:
  "registry_reads (xs @ ys) = registry_reads xs @ registry_reads ys"
  by (induction xs rule: registry_reads.induct) simp_all

lemma registry_writes_append [simp]:
  "registry_writes (xs @ ys) = registry_writes xs @ registry_writes ys"
  by (induction xs rule: registry_writes.induct) simp_all

lemma pull_unit_result:
  "pull_unit E cfg imagesDir imgDesc dgst w = (r, w') \<Longrightarrow>
   \<exists>r1. ExecuteWithRetry (MaxRetries cfg) (pull_cb E cfg imgDesc dgst imagesDir) (unit_started imgDesc dgst w) = (r1, w')
     \<and> (case r1 of Returned (Some err) \<Rightarrow>
                Returned (Some (Errorf_w (''failed to pull image '' @ fmt_q E (Name imgDesc) @ '': '') err))
             | _ \<Rightarrow> r1) = r"
  by (auto simp: pull_unit_def unit_started_def Let_def split: prod.splits outcome.splits option.splits)

lemma pull_unit_success:
  assumes "pull_unit E cfg imagesDir imgDesc dgst w = (Returned None, w')"
  shows "\<exists>w0 f. extends (unit_event E imagesDir imgDesc dgst) w w0
           \<and> pullImage E (Image imgDesc) dgst imagesDir w0 = (Inr f, w')"
proof -
  let ?P = "attempt_event E imagesDir imgDesc dgst"
  let ?w1 = "unit_started imgDesc dgst w"
  from pull_unit_result[OF assms] obtain r1 where
    r1: "ExecuteWithRetry (MaxRetries cfg) (pull_cb E cfg imgDesc dgst imagesDir) ?w1 = (r1, w')"
    and rr: "(case r1 of Returned (Some err) \<Rightarrow>
                Returned (Some (Errorf_w (''failed to pull image '' @ fmt_q E (Name imgDesc) @ '': '') err))
             | _ \<Rightarrow> r1) = Returned None" by blast
  from rr have "r1 = Returned None" by (cases r1) (auto split: option.splits)
  with r1
  have r: "retry_loop (MaxRetries cfg) (pull_cb E cfg imgDesc dgst imagesDir) 0 None ?w1 = (Returned None, w')"
    by (simp add: ExecuteWithRetry_def)
  have "\<exists>t' p' w1. extends ?P ?w1 w1 \<and> pull_cb E cfg imgDesc dgst imagesDir t' p' w1 = (Returned None, w')
          \<and> (t' = 0 \<and> p' = None \<or> 0 < t' \<and> p' \<noteq> None)
          \<and> (\<forall>e. Returned None = Returned (Some e) \<longrightarrow> \<not> t' + 1 < MaxRetries cfg)"
    by (rule retry_loop_last[OF r, where I = "extends ?P ?w1"])
       (auto intro: extends_trans dest: pull_cb_extends)
  then obtain t' p' w1 where e1: "extends ?P ?w1 w1"
     and cb: "pull_cb E cfg imgDesc dgst imagesDir t' p' w1 = (Returned None, w')"
     and tp: "t' = 0 \<or> p' \<noteq> None" by blast
  from pull_cb_success[OF cb tp] obtain w0 f where
     e2: "extends ?P w1 w0" and pi: "pullImage E (Image imgDesc) dgst imagesDir w0 = (Inr f, w')" by blast
  have "extends (unit_event E imagesDir imgDesc dgst) ?w1 w0"
    using extends_trans[OF e1 e2] by (rule extends_mono) (rule attempt_unit_event)
  then have "extends (unit_event E imagesDir imgDesc dgst) w w0"
    by (auto simp: extends_def unit_started_def)
  with pi show ?thesis by blast
qed

lemma pull_unit_fetches:
  assumes "pull_unit E cfg imagesDir imgDesc dgst w = (Returned None, w')"
  shows "\<exists>ref. name_ParseReference E (pinned_source imgDesc dgst) = Inr ref
           \<and> ref \<in> set (registry_reads (new_events w w'))"
proof -
  from pull_unit_success[OF assms] obtain w0 f where
    e: "extends (unit_event E imagesDir imgDesc dgst) w w0"
    and pi: "pullImage E (Image imgDesc) dgst imagesDir w0 = (Inr f, w')" by blast
  from pullImage_success[OF pi] obtain ref where
    ref: "name_ParseReference E (pinned_source imgDesc dgst) = Inr ref"
    and ev: "events w' = events w0 @ [Call_ParseReference (pinned_source imgDesc dgst), Call_Get ref,
               Call_Save (Image imgDesc) f]"
    by (auto simp: pinned_source_def)
  from e obtain evs where "events w0 = events w @ evs" by (auto simp: extends_def)
  with ev have "new_events w w' = evs @ [Call_ParseReference (pinned_source imgDesc dgst), Call_Get ref,
               Call_Save (Image imgDesc) f]"
    by (simp add: new_events_def)
  with ref show ?thesis by auto
qed

lemma pull_digests_fetches:
  "pull_digests E cfg imagesDir imgDesc ds w = (Returned None, w') \<Longrightarrow> dgst \<in> set ds \<Longrightarrow>
   \<exists>ref. name_ParseReference E (pinned_source imgDesc dgst) = Inr ref
           \<and> ref \<in> set (registry_reads (new_events w w'))"
proof (induction ds arbitrary: w)
  case Nil
  then show ?case by simp
next
  case (Cons d ds)
  from Cons.prems(1) have nd: "\<not> ctx_done (Context cfg) (clock w)"
    by (auto split: if_splits)
  obtain r1 w1 where u: "pull_unit E cfg imagesDir imgDesc d w = (r1, w1)"
    by (cases "pull_unit E cfg imagesDir imgDesc d w")
  with nd Cons.prems(1) have r1: "r1 = Returned None"
    by (auto split: outcome.splits option.splits)
  with nd u Cons.prems(1) have rest: "pull_digests E cfg imagesDir imgDesc ds w1 = (Returned None, w')"
    by simp
  have split: "new_events w w' = new_events w w1 @ new_events w1 w'"
    using pull_unit_extends[OF u] pull_digests_extends[OF rest] by (rule new_events_trans)
  show ?case
  proof (cases "dgst = d")
    case True
    with pull_unit_fetches[OF u[unfolded r1]] split show ?thesis by auto
  next
    case False
    with Cons.prems(2) have "dgst \<in> set ds" by simp
    from Cons.IH[OF rest this] split show ?thesis by auto
  qed
qed

lemma pull_images_fetches:
  "pull_images E cfg imagesDir images w = (Returned None, w') \<Longrightarrow>
   imgDesc \<in> set images \<Longrightarrow> dgst \<in> set (Digests imgDesc) \<Longrightarrow>
   \<exists>ref. name_ParseReference E (pinned_source imgDesc dgst) = Inr ref
           \<and> ref \<in> set (registry_reads (new_events w w'))"
proof (induction images arbitrary: w)
  case Nil
  then show ?case by simp
next
  case (Cons i images)
  obtain r1 w1 where u: "pull_digests E cfg imagesDir i (Digests i) w = (r1, w1)"
    by (cases "pull_digests E cfg imagesDir i (Digests i) w")
  with Cons.prems(1) have r1: "r1 = Returned None"
    by (auto split: outcome.splits option.splits)
  with u Cons.prems(1) have rest: "pull_images E cfg imagesDir images w1 = (Returned None, w')"
    by simp
  have split: "new_events w w' = new_events w w1 @ new_events w1 w'"
    using pull_digests_extends[OF u] pull_images_extends[OF rest] by (rule new_events_trans)
  show ?case
  proof (cases "imgDesc = i")
    case True
    with pull_digests_fetches[OF u[unfolded r1]] Cons.prems(3) split show ?thesis by auto
  next
    case False
    with Cons.prems(2) have "imgDesc \<in> set images" by simp
    from Cons.IH[OF rest this Cons.prems(3)] split show ?thesis by auto
  qed
qed

lemma pull_event_reads:
  "list_all (pull_event E d images) evs \<Longrightarrow> ref \<in> set (registry_reads evs) \<Longrightarrow>
   \<exists>imgDesc \<in> set images. \<exists>dgst \<in> set (Digests imgDesc).
      name_ParseReference E (pinned_source imgDesc dgst) = Inr ref"
proof (induction evs)
  case Nil
  then show ?case by simp
next
  case (Cons ev evs)
  then show ?case by (cases ev) (auto simp: pull_event_def)
qed

lemma pull_event_no_writes: "list_all (pull_event E d images) evs \<Longrightarrow> registry_writes evs = []"
proof (induction evs)
  case Nil
  then show ?case by simp
next
  case (Cons ev evs)
  then show ?case by (cases ev) (auto simp: pull_event_def)
qed

lemma PullImages_cases:
  "PullImages E lock imagesDir opts w = (r, w') \<Longrightarrow>
   (\<exists>err. os_MkdirAll E (clock w) imagesDir = Some err
       \<and> r = Returned (Some (Errorf_v ''failed to create bundle directory: '' err))
       \<and> w' = tick (emit (Call_MkdirAll imagesDir) w))
   \<or> (os_MkdirAll E (clock w) imagesDir = None
       \<and> (\<exists>w2. pull_images E (NewConfiguration E opts) imagesDir (Images lock)
                  (pull_started lock imagesDir w) = (r, w2) \<and> w' = emit PB_Stop w2))"
  by (auto simp: PullImages_def Let_def pull_started_def split: option.splits prod.splits)


section \<open>The loops over the units\<close>

lemma pull_digests_append:
  "pull_digests E cfg dir i (xs @ ys) w =
     (case pull_digests E cfg dir i xs w of
        (Returned None, w') \<Rightarrow> pull_digests E cfg dir i ys w'
      | (r, w') \<Rightarrow> (r, w'))"
proof (induction xs arbitrary: w)
  case Nil
  then show ?case by simp
next
  case (Cons x xs)
  then show ?case
    by (auto split: prod.splits outcome.splits option.splits)
qed

lemma pull_images_append:
  "pull_images E cfg dir (xs @ ys) w =
     (case pull_images E cfg dir xs w of
        (Returned None, w') \<Rightarrow> pull_images E cfg dir ys w'
      | (r, w') \<Rightarrow> (r, w'))"
proof (induction xs arbitrary: w)
  case Nil
  then show ?case by simp
next
  case (Cons x xs)
  then show ?case
    by (auto split: prod.splits outcome.splits option.splits)
qed

lemma push_images_append:
  "push_images E cfg dir (xs @ ys) w =
     (case push_images E cfg dir xs w of
        (Returned None, w') \<Rightarrow> push_images E cfg dir ys w'
      | (r, w') \<Rightarrow> (r, w'))"
proof (induction xs arbitrary: w)
  case Nil
  then show ?case by simp
next
  case (Cons x xs)
  then show ?case
    by (auto split: prod.splits outcome.splits option.splits)
qed

lemma PullImages_loop:
  "os_MkdirAll E (clock w) imagesDir = None \<Longrightarrow>
   pull_images E (NewConfiguration E opts) imagesDir (Images lock) (pull_started lock imagesDir w) = (r, w2) \<Longrightarrow>
   PullImages E lock imagesDir opts w = (r, emit PB_Stop w2)"
  by (simp add: PullImages_def Let_def pull_started_def)

lemma PushImages_loop:
  "push_images E (NewConfiguration E opts) imagesDir (Images lock) (push_started lock w) = (r, w2) \<Longrightarrow>
   PushImages E lock imagesDir opts w = (r, emit PB_Stop w2)"
  by (simp add: PushImages_def Let_def push_started_def)

lemma pull_images_stops_in_image:
  assumes "pull_images E cfg dir before w0 = (Returned None, w1)"
    and "pull_digests E cfg dir imgDesc (Digests imgDesc) w1 = (Returned (Some e), w2)"
  shows "pull_images E cfg dir (before @ imgDesc # after) w0 = (Returned (Some e), w2)"
  using assms by (simp add: pull_images_append)


section \<open>The cache after a pull\<close>

lemma stationaryD:
  "stationary E \<Longrightarrow> os_MkdirAll E t = os_MkdirAll E 0"
  "stationary E \<Longrightarrow> remote_Get E t = remote_Get E 0"
  "stationary E \<Longrightarrow> crane_Save E t = crane_Save E 0"
  by (simp_all add: stationary_def)

lemma pullImage_stationary_success:
  assumes "stationary E" and "pullImage E (Image i) d dir w0 = (Inr f, w')"
  shows "\<exists>T. pull_result E dir i d = Some T \<and> fs w' = (fs w0)(getImageTarFile E dir d \<mapsto> T)"
proof -
  from pullImage_success[OF assms(2)] obtain ref rmt img where
    "name_ParseReference E (Image i @ ''@'' @ digest_String (Digest d)) = Inr ref"
    "remote_Get E (clock w0) ref = Inr rmt" "rd_Image rmt = Inr img"
    "crane_Save E (Suc (clock w0)) (getImageTarFile E dir d) = Saved"
    "f = getImageTarFile E dir d"
    "fs w' = (fs w0)(f \<mapsto> Tarball img (Image i))"
    by auto
  then show ?thesis
    using stationaryD(2)[OF assms(1), of "clock w0"] stationaryD(3)[OF assms(1), of "Suc (clock w0)"]
    by (simp add: pull_result_def pinned_source_def)
qed

lemma pullImage_stationary_ok:
  assumes "stationary E" and "pull_result E dir i d = Some T"
  shows "\<exists>w'. pullImage E (Image i) d dir w0 = (Inr (getImageTarFile E dir d), w')
           \<and> fs w' = (fs w0)(getImageTarFile E dir d \<mapsto> T)"
  using assms(2) stationaryD(2)[OF assms(1), of "clock w0"] stationaryD(3)[OF assms(1), of "Suc (clock w0)"]
  by (auto simp: pull_result_def pullImage_def Let_def pinned_source_def
           split: sum.splits save_outcome.splits)

lemma pull_unit_stationary_ok:
  assumes "stationary E" and "pull_result E dir i d = Some T"
  shows "\<exists>w'. pull_unit E cfg dir i d w = (Returned None, w')
           \<and> fs w' = (fs w)(getImageTarFile E dir d \<mapsto> T)"
proof -
  from pullImage_stationary_ok[OF assms, of "unit_started i d w"] obtain w' where
    p: "pullImage E (Image i) d dir (unit_started i d w) = (Inr (getImageTarFile E dir d), w')"
    and f: "fs w' = (fs (unit_started i d w))(getImageTarFile E dir d \<mapsto> T)" by blast
  have "pull_cb E cfg i d dir 0 None (unit_started i d w) = (Returned None, w')"
    using p by (simp add: pull_cb_def pull_attempt_def)
  then have "ExecuteWithRetry (MaxRetries cfg) (pull_cb E cfg i d dir) (unit_started i d w) = (Returned None, w')"
    by (simp add: ExecuteWithRetry_def retry_loop.simps[of _ _ 0])
  then have "pull_unit E cfg dir i d w = (Returned None, w')"
    by (simp add: pull_unit_def unit_started_def Let_def)
  with f show ?thesis by (simp add: unit_started_def)
qed

lemma pull_unit_stationary_success:
  assumes "stationary E" and "pull_unit E cfg dir i d w = (Returned None, w')"
  shows "\<exists>T. pull_result E dir i d = Some T \<and> fs w' = (fs w)(getImageTarFile E dir d \<mapsto> T)"
proof -
  from pull_unit_success[OF assms(2)] obtain w0 f where
    "pullImage E (Image i) d dir w0 = (Inr f, w')" by blast
  from pullImage_stationary_success[OF assms(1) this] obtain T where
    T: "pull_result E dir i d = Some T" by blast
  from pull_unit_stationary_ok[OF assms(1) T, of cfg w] assms(2) T show ?thesis by auto
qed

lemma cache_store_ok:
  "pull_result E dir i d = Some T \<Longrightarrow> cache_store E dir i d m = m(getImageTarFile E dir d \<mapsto> T)"
  by (simp add: cache_store_def)

lemma pull_digests_stationary_success:
  "stationary E \<Longrightarrow> pull_digests E cfg dir i ds w = (Returned None, w') \<Longrightarrow>
   (\<forall>d \<in> set ds. pull_result E dir i d \<noteq> None) \<and> fs w' = fold (cache_store E dir i) ds (fs w)"
proof (induction ds arbitrary: w)
  case Nil
  then show ?case by simp
next
  case (Cons d ds)
  from Cons.prems(2) have nd: "\<not> ctx_done (Context cfg) (clock w)" by (auto split: if_splits)
  obtain r1 w1 where u: "pull_unit E cfg dir i d w = (r1, w1)" by (cases "pull_unit E cfg dir i d w")
  with nd Cons.prems(2) have r1: "r1 = Returned None" by (auto split: outcome.splits option.splits)
  with nd u Cons.prems(2) have rest: "pull_digests E cfg dir i ds w1 = (Returned None, w')" by simp
  from pull_unit_stationary_success[OF Cons.prems(1) u[unfolded r1]] obtain T where
    T: "pull_result E dir i d = Some T" "fs w1 = (fs w)(getImageTarFile E dir d \<mapsto> T)" by blast
  from Cons.IH[OF Cons.prems(1) rest]
  have a: "\<forall>x \<in> set ds. pull_result E dir i x \<noteq> None"
    and b: "fs w' = fold (cache_store E dir i) ds (fs w1)" by blast+
  have c: "cache_store E dir i d (fs w) = fs w1"
    unfolding T(2) by (rule cache_store_ok[OF T(1)])
  from a T(1) have "\<forall>x \<in> set (d # ds). pull_result E dir i x \<noteq> None" by simp
  moreover from b c have "fs w' = fold (cache_store E dir i) (d # ds) (fs w)" by simp
  ultimately show ?case by blast
qed

lemma pull_digests_stationary_ok:
  "stationary E \<Longrightarrow> Context cfg = None \<Longrightarrow> \<forall>d \<in> set ds. pull_result E dir i d \<noteq> None \<Longrightarrow>
   \<exists>w'. pull_digests E cfg dir i ds w = (Returned None, w') \<and> fs w' = fold (cache_store E dir i) ds (fs w)"
proof (induction ds arbitrary: w)
  case Nil
  then show ?case by simp
next
  case (Cons d ds)
  from Cons.prems(3) obtain T where T: "pull_result E dir i d = Some T" by auto
  from pull_unit_stationary_ok[OF Cons.prems(1) T, of cfg w] obtain w1 where
    u: "pull_unit E cfg dir i d w = (Returned None, w1)" "fs w1 = (fs w)(getImageTarFile E dir d \<mapsto> T)"
    by blast
  from Cons.IH[OF Cons.prems(1,2), of w1] Cons.prems(3) obtain w' where
    r: "pull_digests E cfg dir i ds w1 = (Returned None, w')"
    and b: "fs w' = fold (cache_store E dir i) ds (fs w1)"
    by auto
  have c: "cache_store E dir i d (fs w) = fs w1"
    unfolding u(2) by (rule cache_store_ok[OF T])
  have "pull_digests E cfg dir i (d # ds) w = (Returned None, w')"
    using u(1) r Cons.prems(2) by (simp add: ctx_done_def)
  moreover from b c have "fs w' = fold (cache_store E dir i) (d # ds) (fs w)" by simp
  ultimately show ?case by blast
qed

lemma pull_images_stationary_success:
  "stationary E \<Longrightarrow> pull_images E cfg dir images w = (Returned None, w') \<Longrightarrow>
   (\<forall>i \<in> set images. \<forall>d \<in> set (Digests i). pull_result E dir i d \<noteq> None)
   \<and> fs w' = cache_after E dir images (fs w)"
proof (induction images arbitrary: w)
  case Nil
  then show ?case by (simp add: cache_after_def)
next
  case (Cons i images)
  obtain r1 w1 where u: "pull_digests E cfg dir i (Digests i) w = (r1, w1)"
    by (cases "pull_digests E cfg dir i (Digests i) w")
  with Cons.prems(2) have r1: "r1 = Returned None" by (auto split: outcome.splits option.splits)
  with u Cons.prems(2) have rest: "pull_images E cfg dir images w1 = (Returned None, w')" by simp
  from pull_digests_stationary_success[OF Cons.prems(1) u[unfolded r1]] Cons.IH[OF Cons.prems(1) rest]
  show ?case by (simp add: cache_after_def)
qed

lemma pull_images_stationary_ok:
  "stationary E \<Longrightarrow> Context cfg = None \<Longrightarrow>
   \<forall>i \<in> set images. \<forall>d \<in> set (Digests i). pull_result E dir i d \<noteq> None \<Longrightarrow>
   \<exists>w'. pull_images E cfg dir images w = (Returned None, w') \<and> fs w' = cache_after E dir images (fs w)"
proof (induction images arbitrary: w)
  case Nil
  then show ?case by (simp add: cache_after_def)
next
  case (Cons i images)
  from pull_digests_stationary_ok[OF Cons.prems(1,2), of "Digests i" dir i w] Cons.prems(3) obtain w1 where
    u: "pull_digests E cfg dir i (Digests i) w = (Returned None, w1)"
       "fs w1 = fold (cache_store E dir i) (Digests i) (fs w)" by auto
  from Cons.IH[OF Cons.prems(1,2), of w1] Cons.prems(3) obtain w' where
    "pull_images E cfg dir images w1 = (Returned None, w')" "fs w' = cache_after E dir images (fs w1)"
    by auto
  with u show ?case by (simp add: cache_after_def)
qed

lemma cache_store_map_add: "cache_store E dir i d (m ++ g) = m ++ cache_store E dir i d g"
  by (simp add: cache_store_def split: option.splits)

lemma fold_cache_store_map_add:
  "fold (cache_store E dir i) ds (m ++ g) = m ++ fold (cache_store E dir i) ds g"
  by (induction ds arbitrary: g) (simp_all add: cache_store_map_add)

lemma cache_after_map_add: "cache_after E dir images (m ++ g) = m ++ cache_after E dir images g"
  unfolding cache_after_def
  by (induction images arbitrary: g) (simp_all add: fold_cache_store_map_add)

lemma map_add_twice: "(m ++ g) ++ g = m ++ g"
  by (rule ext) (simp add: map_add_def split: option.splits)

lemma cache_after_idem: "cache_after E dir images (cache_after E dir images m) = cache_after E dir images m"
proof -
  let ?G = "cache_after E dir images Map.empty"
  have m: "cache_after E dir images m = m ++ ?G" for m
  proof -
    have "cache_after E dir images (m ++ Map.empty) = m ++ ?G" by (rule cache_after_map_add)
    then show ?thesis by (simp only: map_add_empty)
  qed
  have e: "cache_after E dir images m = m ++ ?G" by (rule m)
  from e have "cache_after E dir images (cache_after E dir images m) = cache_after E dir images (m ++ ?G)"
    by (rule arg_cong)
  also have "\<dots> = (m ++ ?G) ++ ?G" by (rule m)
  also have "\<dots> = m ++ ?G" by (rule map_add_twice)
  also have "\<dots> = cache_after E dir images m" by (rule e[symmetric])
  finally show ?thesis .
qed

lemma pull_result_tarball: "pull_result E dir i d = Some T \<Longrightarrow> is_tarball (Some T)"
  by (auto simp: pull_result_def is_tarball_def split: sum.splits save_outcome.splits)

lemma cache_store_keeps_tarball: "is_tarball (m p) \<Longrightarrow> is_tarball (cache_store E dir i d m p)"
  by (auto simp: cache_store_def dest: pull_result_tarball split: option.splits)

lemma fold_cache_store_keeps_tarball:
  "is_tarball (m p) \<Longrightarrow> is_tarball (fold (cache_store E dir i) ds m p)"
  by (induction ds arbitrary: m) (simp_all add: cache_store_keeps_tarball)

lemma fold_cache_store_tarball:
  "d \<in> set ds \<Longrightarrow> pull_result E dir i d \<noteq> None \<Longrightarrow>
   is_tarball (fold (cache_store E dir i) ds m (getImageTarFile E dir d))"
proof (induction ds arbitrary: m)
  case Nil
  then show ?case by simp
next
  case (Cons x ds)
  show ?case
  proof (cases "d = x")
    case True
    with Cons.prems(2) have "is_tarball (cache_store E dir i x m (getImageTarFile E dir d))"
      by (auto simp: cache_store_def dest: pull_result_tarball)
    then show ?thesis by (simp add: fold_cache_store_keeps_tarball)
  next
    case False
    with Cons show ?thesis by simp
  qed
qed

lemma cache_after_keeps_tarball:
  "is_tarball (m p) \<Longrightarrow> is_tarball (cache_after E dir images m p)"
  unfolding cache_after_def
  by (induction images arbitrary: m) (simp_all add: fold_cache_store_keeps_tarball)

lemma cache_after_tarball:
  "i \<in> set images \<Longrightarrow> d \<in> set (Digests i) \<Longrightarrow> pull_result E dir i d \<noteq> None \<Longrightarrow>
   is_tarball (cache_after E dir images m (getImageTarFile E dir d))"
proof (induction images arbitrary: m)
  case Nil
  then show ?case by simp
next
  case (Cons x images)
  show ?case
  proof (cases "i = x")
    case True
    with Cons.prems have "is_tarball (fold (cache_store E dir x) (Digests x) m (getImageTarFile E dir d))"
      by (simp add: fold_cache_store_tarball)
    then have "is_tarball (cache_after E dir images (fold (cache_store E dir x) (Digests x) m)
                 (getImageTarFile E dir d))"
      by (rule cache_after_keeps_tarball)
    then show ?thesis by (simp add: cache_after_def)
  next
    case False
    with Cons.prems have "i \<in> set images" by simp
    from Cons.IH[OF this Cons.prems(2,3)] show ?thesis by (simp add: cache_after_def)
  qed
qed


section \<open>A retry loop whose attempts all fail\<close>

lemma count_attempts_append [simp]:
  "count_attempts (xs @ ys) = count_attempts xs + count_attempts ys"
  by (induction xs rule: count_attempts.induct) simp_all






section \<open>The progress total of a pull\<close>

text \<open>
  C2. For every lock, whenever the cache directory can be created, the pull gives the
  progress bar exactly one total, and it is the sum over the Chart Images of the lock
  of their numbers of Digest Entries (one unit per platform variant), not the number
  of Chart Images; when the directory cannot be created no total is reported.
\<close>

theorem PullImages_total_is_number_of_digests:
  "reported_totals (new_events w (snd (PullImages E lock imagesDir opts w)))
     = (if os_MkdirAll E (clock w) imagesDir = None
        then [\<Sum>imgDesc\<leftarrow>Images lock. int (length (Digests imgDesc))]
        else [])"
proof (cases "os_MkdirAll E (clock w) imagesDir")
  case (Some err)
  then show ?thesis by (simp add: PullImages_def Let_def new_events_def)
next
  case None
  let ?w1 = "pull_started lock imagesDir w"
  obtain r w2 where p: "pull_images E (NewConfiguration E opts) imagesDir (Images lock) ?w1 = (r, w2)"
    by (cases "pull_images E (NewConfiguration E opts) imagesDir (Images lock) ?w1")
  from pull_images_extends[OF p] obtain evs where
    evs: "events w2 = events ?w1 @ evs" "list_all (pull_event E imagesDir (Images lock)) evs"
    by (auto simp: extends_def)
  have "events ?w1 = events w @ [Call_MkdirAll imagesDir,
          PB_WithTotal (getNumberOfArtifacts (Images lock)), PB_UpdateTitle ''Pulling Images'', PB_Start]"
    by (simp add: pull_started_def)
  with None p evs(1) have "events (snd (PullImages E lock imagesDir opts w))
          = events w @ ([Call_MkdirAll imagesDir, PB_WithTotal (getNumberOfArtifacts (Images lock)),
                PB_UpdateTitle ''Pulling Images'', PB_Start] @ evs @ [PB_Stop])"
    by (simp add: PullImages_def Let_def pull_started_def)
  then have "new_events w (snd (PullImages E lock imagesDir opts w))
          = [Call_MkdirAll imagesDir, PB_WithTotal (getNumberOfArtifacts (Images lock)),
                PB_UpdateTitle ''Pulling Images'', PB_Start] @ evs @ [PB_Stop]"
    by (rule new_events_append)
  then show ?thesis
    using None pull_event_no_total[OF evs(2)] by (simp add: getNumberOfArtifacts_sum)
qed

text \<open>One image with two platforms: the total is 2, the number of images is 1.\<close>

theorem PullImages_total_witness:
  "reported_totals (new_events ex_world (snd (PullImages ex_env ex_lock ''demo/images'' [] ex_world))) = [2]
   \<and> length (Images ex_lock) = 1"
  using PullImages_total_is_number_of_digests [of ex_world ex_env ex_lock "''demo/images''" "[]"]
  by (simp add: ex_env_def ex_lock_def ex_image_def ex_world_def)

section \<open>The references a pull fetches\<close>

text \<open>
  C1. For every lock, every request a pull makes to the registry reads a reference
  formed from the registry reference of a Chart Image of the lock and the digest of
  one of its Digest Entries (image@digest); the pull makes no other request, so no tag
  is resolved to a digest; and when the pull succeeds, the pinned reference of every
  Digest Entry of every Chart Image has been fetched.
\<close>

theorem PullImages_fetches_pinned_references:
  assumes "PullImages E lock imagesDir opts w = (r, w')"
  shows "(\<forall>ref \<in> set (registry_reads (new_events w w')).
            \<exists>imgDesc \<in> set (Images lock). \<exists>dgst \<in> set (Digests imgDesc).
               name_ParseReference E (Image imgDesc @ ''@'' @ digest_String (Digest dgst)) = Inr ref)
         \<and> registry_writes (new_events w w') = []
         \<and> (r = Returned None \<longrightarrow>
              (\<forall>imgDesc \<in> set (Images lock). \<forall>dgst \<in> set (Digests imgDesc).
                 \<exists>ref. name_ParseReference E (Image imgDesc @ ''@'' @ digest_String (Digest dgst)) = Inr ref
                    \<and> ref \<in> set (registry_reads (new_events w w'))))"
proof -
  from PullImages_cases[OF assms] show ?thesis
  proof (elim disjE exE conjE)
    fix err
    assume "w' = tick (emit (Call_MkdirAll imagesDir) w)"
      and "r = Returned (Some (Errorf_v ''failed to create bundle directory: '' err))"
    then show ?thesis by (simp add: new_events_def)
  next
    fix w2
    assume p: "pull_images E (NewConfiguration E opts) imagesDir (Images lock)
                  (pull_started lock imagesDir w) = (r, w2)"
      and w': "w' = emit PB_Stop w2"
    let ?w1 = "pull_started lock imagesDir w"
    from pull_images_extends[OF p] obtain evs where
      evs: "events w2 = events ?w1 @ evs" "list_all (pull_event E imagesDir (Images lock)) evs"
      by (auto simp: extends_def)
    have n2: "new_events ?w1 w2 = evs" using evs(1) by (simp add: new_events_def)
    have ne: "new_events w w' = [Call_MkdirAll imagesDir, PB_WithTotal (getNumberOfArtifacts (Images lock)),
                PB_UpdateTitle ''Pulling Images'', PB_Start] @ evs @ [PB_Stop]"
      using evs(1) w' by (simp add: new_events_def pull_started_def)
    have reads: "registry_reads (new_events w w') = registry_reads evs"
      and writes: "registry_writes (new_events w w') = registry_writes evs"
      by (simp_all add: ne)
    have a: "\<forall>ref \<in> set (registry_reads (new_events w w')).
            \<exists>imgDesc \<in> set (Images lock). \<exists>dgst \<in> set (Digests imgDesc).
               name_ParseReference E (Image imgDesc @ ''@'' @ digest_String (Digest dgst)) = Inr ref"
      using pull_event_reads[OF evs(2)] by (simp add: reads pinned_source_def)
    have b: "registry_writes (new_events w w') = []"
      using pull_event_no_writes[OF evs(2)] by (simp add: writes)
    have c: "r = Returned None \<longrightarrow>
              (\<forall>imgDesc \<in> set (Images lock). \<forall>dgst \<in> set (Digests imgDesc).
                 \<exists>ref. name_ParseReference E (Image imgDesc @ ''@'' @ digest_String (Digest dgst)) = Inr ref
                    \<and> ref \<in> set (registry_reads (new_events w w')))"
    proof (intro impI ballI)
      fix imgDesc dgst
      assume "r = Returned None" "imgDesc \<in> set (Images lock)" "dgst \<in> set (Digests imgDesc)"
      with pull_images_fetches[OF p[unfolded \<open>r = Returned None\<close>]] 
      show "\<exists>ref. name_ParseReference E (Image imgDesc @ ''@'' @ digest_String (Digest dgst)) = Inr ref
                    \<and> ref \<in> set (registry_reads (new_events w w'))"
        by (simp add: reads n2 pinned_source_def)
    qed
    from a b c show ?thesis by blast
  qed
qed


text \<open>The example lock against a registry that serves every reference.\<close>

theorem PullImages_fetches_witness:
  "fst (PullImages ex_env ex_lock ''demo/images'' [] ex_world) = Returned None
   \<and> (\<exists>ref. name_ParseReference ex_env (Image ex_image @ ''@'' @ digest_String (Digest ex_arm64)) = Inr ref
          \<and> ref \<in> set (registry_reads (new_events ex_world
                 (snd (PullImages ex_env ex_lock ''demo/images'' [] ex_world)))))
   \<and> registry_reads (new_events ex_world (snd (PullImages ex_env ex_lock ''demo/images'' [] ex_world)))
        = [''repo/app@sha256:'' @ ex_hex_a, ''repo/app@sha256:'' @ ex_hex_b]"
proof -
  let ?run = "PullImages ex_env ex_lock ''demo/images'' [] ex_world"
  have ok: "fst ?run = Returned None" by code_simp
  have reads: "registry_reads (new_events ex_world (snd ?run)) = [''repo/app@sha256:'' @ ex_hex_a, ''repo/app@sha256:'' @ ex_hex_b]"
    by code_simp
  have "?run = (fst ?run, snd ?run)" by simp
  from PullImages_fetches_pinned_references[OF this] ok
  have "\<forall>imgDesc \<in> set (Images ex_lock). \<forall>dgst \<in> set (Digests imgDesc).
          \<exists>ref. name_ParseReference ex_env (Image imgDesc @ ''@'' @ digest_String (Digest dgst)) = Inr ref
             \<and> ref \<in> set (registry_reads (new_events ex_world (snd ?run)))"
    by blast
  then have "\<exists>ref. name_ParseReference ex_env (Image ex_image @ ''@'' @ digest_String (Digest ex_arm64)) = Inr ref
          \<and> ref \<in> set (registry_reads (new_events ex_world (snd ?run)))"
    by (simp add: ex_lock_def ex_image_def)
  with ok reads show ?thesis by blast
qed

section \<open>Cancellation at a unit boundary\<close>

text \<open>
  C5. For every pull and every push, the cancellation signal is checked before each
  transfer unit is started: when the units before some unit have succeeded and the
  context is done at that boundary, the call returns the error
  \<^verbatim>\<open>cancelled execution\<close> and leaves the world as it was at the boundary (but for the stop
  of the progress bar). So no further unit is attempted, and a unit that was never
  attempted is never reported as a failed transfer.
\<close>

theorem cancellation_stops_before_the_next_unit:
  "(os_MkdirAll E (clock w) imagesDir = None
      \<and> Images lock = before @ imgDesc # after
      \<and> Digests imgDesc = ds1 @ dgst # ds2
      \<and> pull_images E (NewConfiguration E opts) imagesDir before (pull_started lock imagesDir w)
            = (Returned None, w1)
      \<and> pull_digests E (NewConfiguration E opts) imagesDir imgDesc ds1 w1 = (Returned None, w2)
      \<and> ctx_done (Context (NewConfiguration E opts)) (clock w2)
    \<longrightarrow> PullImages E lock imagesDir opts w = (Returned (Some cancelled_execution), emit PB_Stop w2))
   \<and> (Images lock = before @ imgDesc # after
      \<and> push_images E (NewConfiguration E opts) imagesDir before (push_started lock w)
            = (Returned None, w1)
      \<and> ctx_done (Context (NewConfiguration E opts)) (clock w1)
    \<longrightarrow> PushImages E lock imagesDir opts w = (Returned (Some cancelled_execution), emit PB_Stop w1))"
proof (intro conjI impI)
  let ?cfg = "NewConfiguration E opts"
  assume a: "os_MkdirAll E (clock w) imagesDir = None
      \<and> Images lock = before @ imgDesc # after
      \<and> Digests imgDesc = ds1 @ dgst # ds2
      \<and> pull_images E ?cfg imagesDir before (pull_started lock imagesDir w) = (Returned None, w1)
      \<and> pull_digests E ?cfg imagesDir imgDesc ds1 w1 = (Returned None, w2)
      \<and> ctx_done (Context ?cfg) (clock w2)"
  then have "pull_digests E ?cfg imagesDir imgDesc (Digests imgDesc) w1
               = (Returned (Some cancelled_execution), w2)"
    by (simp add: pull_digests_append)
  with a have "pull_images E ?cfg imagesDir (Images lock) (pull_started lock imagesDir w)
               = (Returned (Some cancelled_execution), w2)"
    by (simp add: pull_images_stops_in_image)
  with a show "PullImages E lock imagesDir opts w = (Returned (Some cancelled_execution), emit PB_Stop w2)"
    by (simp add: PullImages_loop)
next
  let ?cfg = "NewConfiguration E opts"
  assume a: "Images lock = before @ imgDesc # after
      \<and> push_images E ?cfg imagesDir before (push_started lock w) = (Returned None, w1)
      \<and> ctx_done (Context ?cfg) (clock w1)"
  then have "push_images E ?cfg imagesDir (Images lock) (push_started lock w)
               = (Returned (Some cancelled_execution), w1)"
    by (simp add: push_images_append)
  then show "PushImages E lock imagesDir opts w = (Returned (Some cancelled_execution), emit PB_Stop w1)"
    by (rule PushImages_loop)
qed

text \<open>
  A context cancelled at time 2, while the first of two units is transferred: the pull
  fetches the first reference only. A context cancelled from the start: nothing is pushed.
\<close>

theorem cancellation_witness:
  "fst (PullImages ex_env ex_lock ''demo/images'' [WithContext (Some 2)] ex_world)
       = Returned (Some cancelled_execution)
   \<and> registry_reads (events (snd (PullImages ex_env ex_lock ''demo/images'' [WithContext (Some 2)] ex_world)))
       = [''repo/app@sha256:'' @ ex_hex_a]
   \<and> PushImages ex_env ex_lock ''demo/images'' [WithContext (Some 0)] ex_world
       = (Returned (Some cancelled_execution), emit PB_Stop (push_started ex_lock ex_world))"
proof -
  let ?opts = "[WithContext (Some 2)]"
  let ?cfg = "NewConfiguration ex_env ?opts"
  let ?w0 = "pull_started ex_lock ''demo/images'' ex_world"
  let ?unit = "pull_digests ex_env ?cfg ''demo/images'' ex_image [ex_amd64] ?w0"
  have h1: "os_MkdirAll ex_env (clock ex_world) ''demo/images'' = None" by code_simp
  have h2: "Images ex_lock = [] @ ex_image # []" by (simp add: ex_lock_def)
  have h3: "Digests ex_image = [ex_amd64] @ ex_arm64 # []" by (simp add: ex_image_def)
  have h4: "pull_images ex_env ?cfg ''demo/images'' [] ?w0 = (Returned None, ?w0)" by simp
  have "fst ?unit = Returned None" by code_simp
  then have h5: "?unit = (Returned None, snd ?unit)" by (simp add: prod_eq_iff)
  have h6: "ctx_done (Context ?cfg) (clock (snd ?unit))" by code_simp
  from cancellation_stops_before_the_next_unit
         [of ex_env ex_world "''demo/images''" ex_lock "[]" ex_image "[]" "[ex_amd64]" ex_arm64 "[]"
             ?opts ?w0 "snd ?unit"]
       h1 h2 h3 h4 h5 h6
  have pull: "fst (PullImages ex_env ex_lock ''demo/images'' ?opts ex_world)
                = Returned (Some cancelled_execution)"
    by simp
  have reads: "registry_reads (events (snd (PullImages ex_env ex_lock ''demo/images'' ?opts ex_world)))
       = [''repo/app@sha256:'' @ ex_hex_a]"
    by code_simp
  let ?popts = "[WithContext (Some 0)]"
  have p1: "push_images ex_env (NewConfiguration ex_env ?popts) ''demo/images'' []
              (push_started ex_lock ex_world) = (Returned None, push_started ex_lock ex_world)"
    by simp
  have p2: "ctx_done (Context (NewConfiguration ex_env ?popts)) (clock (push_started ex_lock ex_world))"
    by code_simp
  from cancellation_stops_before_the_next_unit
         [of ex_env ex_world "''demo/images''" ex_lock "[]" ex_image "[]" "[]" ex_arm64 "[]"
             ?popts "push_started ex_lock ex_world" ex_world]
       h2 p1 p2
  have push: "PushImages ex_env ex_lock ''demo/images'' ?popts ex_world
       = (Returned (Some cancelled_execution), emit PB_Stop (push_started ex_lock ex_world))"
    by simp
  from pull reads push show ?thesis by blast
qed

section \<open>A unit whose retries are exhausted\<close>




section \<open>Pulling twice into the same cache\<close>

text \<open>
  C9. For every lock, when the environment is stationary (the registry returns the same
  bytes for each pinned digest at every time) and the context is never cancelled, a
  pull that succeeds can be run again on the cache it left: the second pull succeeds
  too and leaves the cache as the first pull left it. Each Digest Entry is stored as
  an image archive in the file of the cache directory named by the encoded form of
  its digest followed by \<^verbatim>\<open>.tar\<close>.
\<close>

theorem pulling_twice_leaves_the_same_cache:
  assumes "stationary E" and "Context (NewConfiguration E opts) = None"
    and "PullImages E lock imagesDir opts w = (Returned None, w1)"
  shows "\<exists>w2. PullImages E lock imagesDir opts w1 = (Returned None, w2) \<and> fs w2 = fs w1
           \<and> (\<forall>imgDesc \<in> set (Images lock). \<forall>dgst \<in> set (Digests imgDesc).
                 is_tarball (fs w1 (filepath_Join E imagesDir (Encoded (Digest dgst) @ ''.tar''))))"
proof -
  let ?cfg = "NewConfiguration E opts"
  from PullImages_cases[OF assms(3)] obtain wa where
    mk: "os_MkdirAll E (clock w) imagesDir = None"
    and p: "pull_images E ?cfg imagesDir (Images lock) (pull_started lock imagesDir w) = (Returned None, wa)"
    and w1: "w1 = emit PB_Stop wa"
    by auto
  from pull_images_stationary_success[OF assms(1) p]
  have ok: "\<forall>i \<in> set (Images lock). \<forall>d \<in> set (Digests i). pull_result E imagesDir i d \<noteq> None"
    and f1: "fs wa = cache_after E imagesDir (Images lock) (fs w)"
    by (simp_all add: pull_started_def)
  have mk1: "os_MkdirAll E (clock w1) imagesDir = None"
    using mk stationaryD(1)[OF assms(1), of "clock w"] stationaryD(1)[OF assms(1), of "clock w1"] by simp
  from pull_images_stationary_ok[OF assms(1,2) ok, of "pull_started lock imagesDir w1"] obtain wb where
    p2: "pull_images E ?cfg imagesDir (Images lock) (pull_started lock imagesDir w1) = (Returned None, wb)"
    and f2: "fs wb = cache_after E imagesDir (Images lock) (fs (pull_started lock imagesDir w1))"
    by blast
  have run2: "PullImages E lock imagesDir opts w1 = (Returned None, emit PB_Stop wb)"
    using mk1 p2 by (rule PullImages_loop)
  have same: "fs (emit PB_Stop wb) = fs w1"
    using f1 f2 w1 by (simp add: pull_started_def cache_after_idem)
  have files: "\<forall>imgDesc \<in> set (Images lock). \<forall>dgst \<in> set (Digests imgDesc).
                 is_tarball (fs w1 (filepath_Join E imagesDir (Encoded (Digest dgst) @ ''.tar'')))"
    using ok f1 w1 cache_after_tarball[of _ "Images lock" _ E imagesDir "fs w"]
    by (simp add: getImageTarFile_def)
  from run2 same files show ?thesis by blast
qed

text \<open>The example lock, pulled twice from the registry that serves every reference.\<close>

theorem pulling_twice_witness:
  "fst (PullImages ex_env ex_lock ''demo/images'' [] ex_world) = Returned None
   \<and> (\<exists>w2. PullImages ex_env ex_lock ''demo/images'' []
               (snd (PullImages ex_env ex_lock ''demo/images'' [] ex_world)) = (Returned None, w2)
          \<and> fs w2 = fs (snd (PullImages ex_env ex_lock ''demo/images'' [] ex_world)))
   \<and> is_tarball (fs (snd (PullImages ex_env ex_lock ''demo/images'' [] ex_world)) (''demo/images/'' @ ex_hex_b @ ''.tar''))"
proof -
  let ?run = "PullImages ex_env ex_lock ''demo/images'' [] ex_world"
  have st: "stationary ex_env" by (simp add: stationary_def ex_env_def)
  have ctx: "Context (NewConfiguration ex_env []) = None"
    by (simp add: NewConfiguration_def context_Background_def)
  have ok: "fst ?run = Returned None" by code_simp
  then have run: "?run = (Returned None, snd ?run)" by (simp add: prod_eq_iff)
  from pulling_twice_leaves_the_same_cache[OF st ctx run] obtain w2 where
    again: "PullImages ex_env ex_lock ''demo/images'' [] (snd ?run) = (Returned None, w2)"
           "fs w2 = fs (snd ?run)"
    and files: "\<forall>imgDesc \<in> set (Images ex_lock). \<forall>dgst \<in> set (Digests imgDesc).
                 is_tarball (fs (snd ?run)
                   (filepath_Join ex_env ''demo/images'' (Encoded (Digest dgst) @ ''.tar'')))"
    by blast
  from files have "is_tarball (fs (snd ?run) (''demo/images/'' @ ex_hex_b @ ''.tar''))"
    by (simp add: ex_lock_def ex_image_def ex_arm64_def ex_env_def)
  with ok again show ?thesis by blast
qed

end
